theory Spec2Isabelle
  imports Main "HOL-Library.Word" "HOL-Library.Sublist"
begin

section \<open>Package assembly of melange: \<open>pkg/build/package.go\<close>\<close>

text \<open>
  A shallow embedding of \<open>pkg/build/package.go\<close>.  Go strings and byte slices are byte
  sequences, so both are \<open>string\<close> (a list of 8-bit characters).  A Go \<open>error\<close> is a value
  of the datatype \<open>error\<close>; \<open>fmt.Errorf("p: %w", err)\<close> is \<open>Wrapf p err\<close>.  Everything that
  lives outside this file (the standard library, the archive writer, the compressor, the
  composition analyzer, the signer) is a field of the record \<open>env\<close>: the model calls it
  where the source calls it and branches on what it returns.  Effects on the outside world
  are appended to a trace of events.
\<close>

subsection \<open>Data\<close>

type_synonym bytes = string

datatype error = Err string | Wrapf string error

fun error_msg :: "error \<Rightarrow> string" where
  "error_msg (Err s) = s"
| "error_msg (Wrapf p e) = p @ '': '' @ error_msg e"

definition newline :: char where
  "newline = CHR 0x0A"

text \<open>Modelled from the spec: the declarations of \<open>config.Copyright\<close>,
  \<open>config.Package\<close>, \<open>config.Scriptlets\<close> and \<open>config.Dependencies\<close> are in package
  \<open>config\<close>, which is not under \<open>src/\<close>.  The records hold the fields this file reads,
  with the types its uses require: the dependency sets are lists of strings, \<open>Epoch\<close> is
  printed with \<open>%d\<close> (an unsigned integer), \<open>ProviderPriority\<close> is the "provider-priority
  value (only if set)" of the spec, an integer whose zero value means "not set" (the
  template's \<open>if\<close> tests it).\<close>

record Copyright =
  License :: string

record Package =
  Name :: string
  Version :: string
  Epoch :: nat
  Copyright :: "Copyright list"

record Trigger =
  Script :: string
  Paths :: "string list"

record Scriptlets =
  Trigger :: Trigger
  PreInstall :: string
  PostInstall :: string
  PreDeinstall :: string
  PostDeinstall :: string
  PreUpgrade :: string
  PostUpgrade :: string

record Dependencies =
  Runtime :: "string list"
  Provides :: "string list"
  Replaces :: "string list"
  ProviderPriority :: int
  Vendored :: "string list"

text \<open>Modelled from the spec: \<open>apko_types.User\<close>, \<open>apko_types.Group\<close> and \<open>Build\<close> are
  declared outside \<open>src/\<close>.  The records hold the fields this file reads: the account
  names and their numeric ids (unsigned, converted with \<open>int(...)\<close>), and of \<open>Build\<close> the
  switches and paths; \<open>Users\<close> and \<open>Groups\<close> stand for
  \<open>Configuration.Environment.Accounts.Users\<close> and \<open>.Groups\<close>, \<open>SourceDateEpoch\<close> for the
  value of \<open>SourceDateEpoch.Unix()\<close>, the "fixed timestamp" of the spec.\<close>

record User =
  UserName :: string
  UID :: nat

record Group =
  GroupName :: string
  GID :: nat

record Build =
  CreateBuildLog :: bool
  SourceDateEpoch :: int
  SigningKey :: string
  SigningPassphrase :: string
  DependencyLog :: string
  WorkspaceDir :: string
  GuestDir :: string
  Users :: "User list"
  Groups :: "Group list"

record PackageBuild =
  Build :: Build
  Origin :: Package
  PackageName :: string
  OriginName :: string
  InstalledSize :: "64 word"
  DataHash :: string
  OutDir :: string
  Dependencies :: Dependencies
  Arch :: string
  Scriptlets :: Scriptlets
  Description :: string
  URL :: string
  Commit :: string

text \<open>Modelled from the spec: \<open>KeyApkSigner\<close> is declared in another file of the
  repository; the two fields that \<open>Signer\<close> fills.\<close>

record KeyApkSigner =
  KeyFile :: string
  KeyPassphrase :: string

subsection \<open>File trees and the archive writer's context\<close>

text \<open>An \<open>fs.FS\<close> as \<open>fs.WalkDir\<close> sees it.  Every entry carries its name and what
  \<open>Info()\<close> (for the root: \<open>Stat\<close>) returns; a directory also carries the error of
  \<open>ReadDir\<close>, if any, and the entries \<open>ReadDir\<close> returned.  \<open>Size()\<close> is an \<open>int64\<close>.\<close>

datatype ftype = Regular | Directory | Symlink | Irregular

record FileInfo =
  Size :: "64 word"
  Type :: ftype

datatype fstree =
    Leaf string "error + FileInfo"
  | Dir string "error + FileInfo" "error option" "fstree list"

text \<open>A \<open>memfs\<close> file system holding top-level files only: name, contents, permission bits,
  in the order of the \<open>WriteFile\<close> calls.\<close>

type_synonym memfs = "(string \<times> bytes \<times> nat) list"

datatype fsview = DiskFS fstree | MemFS memfs

text \<open>The options of \<open>tarball.NewContext\<close>; an option that is not given keeps its default
  (no remapping, no override, \<open>False\<close>).\<close>

record tarctx =
  WithSourceDateEpoch :: int
  WithRemapUIDs :: "int \<rightharpoonup> int"
  WithRemapGIDs :: "int \<rightharpoonup> int"
  WithUseChecksums :: bool
  WithOverrideUIDGID :: "(int \<times> int) option"
  WithOverrideUname :: "string option"
  WithOverrideGname :: "string option"
  WithSkipClose :: bool

definition default_tarctx :: "int \<Rightarrow> tarctx" where
  "default_tarctx epoch =
     \<lparr> WithSourceDateEpoch = epoch, WithRemapUIDs = Map.empty, WithRemapGIDs = Map.empty,
       WithUseChecksums = False, WithOverrideUIDGID = None, WithOverrideUname = None,
       WithOverrideGname = None, WithSkipClose = False \<rparr>"

text \<open>Modelled from the spec: the archive writer (package \<open>tarball\<close>) is not under
  \<open>src/\<close>.  It "writes a tar stream honoring: fixed timestamp override, numeric uid/gid
  remap table, fixed owner/group names": for the numeric owner of an entry an override
  replaces every id; otherwise an id that is a key of the remap table is replaced with its
  image and any other id is kept.\<close>

definition tarball_uid :: "tarctx \<Rightarrow> int \<Rightarrow> int" where
  "tarball_uid ctx uid =
     (case WithOverrideUIDGID ctx of
        Some (u, g) \<Rightarrow> u
      | None \<Rightarrow> (case WithRemapUIDs ctx uid of Some v \<Rightarrow> v | None \<Rightarrow> uid))"

definition tarball_gid :: "tarctx \<Rightarrow> int \<Rightarrow> int" where
  "tarball_gid ctx gid =
     (case WithOverrideUIDGID ctx of
        Some (u, g) \<Rightarrow> g
      | None \<Rightarrow> (case WithRemapGIDs ctx gid of Some v \<Rightarrow> v | None \<Rightarrow> gid))"

subsection \<open>Effects\<close>

datatype open_flag = O_APPEND | O_CREATE | O_WRONLY

datatype event =
    LogInfo string
  | LogWarn string
  | MkdirAll string nat
  | OpenFile string "open_flag list" nat
  | WriteString string string
  | Create string
  | CreateTemp string
  | Encode string Dependencies
  | Close string
  | Remove string
  | SetConcurrency int int
  | Seek string

text \<open>The world: the trace of the calls made so far (log messages, and the calls that
  create a directory, open, create, close, rewind or remove a file, or tune the
  compressor; a call is recorded whether or not it fails), and the contents of the files
  that \<open>EmitPackage\<close> creates with \<open>os.Create\<close> and fills with \<open>io.Copy\<close>.  The two
  shared logs (\<open>packages.log\<close> and the dependency log) appear in the trace only.\<close>

record world =
  trace :: "event list"
  files :: "string \<rightharpoonup> bytes"

definition emit :: "event \<Rightarrow> world \<Rightarrow> world" where
  "emit e w = w\<lparr> trace := trace w @ [e] \<rparr>"

text \<open>What the code calls and does not define.  \<open>sca_Analyze\<close>, \<open>util_Dedup\<close>,
  \<open>Summarize\<close>, \<open>readlinkFS\<close> and \<open>EmitSignature\<close> belong to this repository but to other
  files; the rest is the standard library, \<open>tarball\<close>, \<open>pgzip\<close> and \<open>gzip\<close>.
  An \<open>error option\<close> is the returned \<open>error\<close> (\<open>None\<close> for \<open>nil\<close>).

  \<^item> \<open>json_Encode ok d\<close>: what \<open>Encode\<close> returns for an encoder over \<open>logFile\<close>, where
    \<open>ok\<close> tells whether \<open>os.Create\<close> returned a file or \<open>nil\<close>.
  \<^item> \<open>tarball_WriteTar ctx fsys userinfofs\<close>: the tar stream written before the writer
    stopped, and the error it stopped with, if any.
  \<^item> \<open>pgzip_Write bs n tar\<close> and \<open>pgzip_Close bs n tar\<close>: the compressed blocks the
    parallel compressor hands to the underlying writer while the tar stream \<open>tar\<close> is
    written into it, and when it is closed.
  \<^item> \<open>gzip_Compress tar\<close>: the contents of the buffer behind the \<open>gzip\<close> writer once
    \<open>tar\<close> has been written and the writer closed; \<open>gzip_Close tar\<close>: what \<open>Close\<close>
    returns.
  \<^item> \<open>file_Write name off p\<close>: \<open>None\<close> when all of \<open>p\<close> is written, \<open>Some (n, e)\<close> when
    the write fails with \<open>e\<close> after \<open>n\<close> bytes; \<open>io_Copy\<close> likewise.\<close>

record env =
  GOMAXPROCS :: int
  filepath_Join :: "string list \<Rightarrow> string"
  filepath_Base :: "string \<Rightarrow> string"
  os_MkdirAll :: "string \<Rightarrow> error option"
  os_OpenFile :: "string \<Rightarrow> error option"
  file_WriteString :: "string \<Rightarrow> string \<Rightarrow> error option"
  os_Create :: "string \<Rightarrow> error option"
  os_CreateTemp :: "string \<Rightarrow> error + string"
  sca_Analyze :: "PackageBuild \<Rightarrow> error + Dependencies"
  json_Encode :: "bool \<Rightarrow> Dependencies \<Rightarrow> error option"
  util_Dedup :: "string list \<Rightarrow> string list"
  Summarize :: "Dependencies \<Rightarrow> Dependencies"
  readlinkFS :: "string \<Rightarrow> fstree"
  os_DirFS :: "string \<Rightarrow> fstree"
  tarball_NewContext :: "tarctx \<Rightarrow> error option"
  tarball_WriteTar :: "tarctx \<Rightarrow> fsview \<Rightarrow> fsview \<Rightarrow> bytes \<times> error option"
  pgzip_SetConcurrency :: "int \<Rightarrow> int \<Rightarrow> error option"
  pgzip_Write :: "int \<Rightarrow> int \<Rightarrow> bytes \<Rightarrow> bytes list"
  pgzip_Close :: "int \<Rightarrow> int \<Rightarrow> bytes \<Rightarrow> bytes list"
  gzip_Compress :: "bytes \<Rightarrow> bytes"
  gzip_Close :: "bytes \<Rightarrow> error option"
  sha256_Sum :: "bytes \<Rightarrow> bytes"
  file_Write :: "string \<Rightarrow> nat \<Rightarrow> bytes \<Rightarrow> (nat \<times> error) option"
  file_Seek :: "string \<Rightarrow> error option"
  EmitSignature :: "KeyApkSigner \<Rightarrow> bytes \<Rightarrow> int \<Rightarrow> error + bytes"
  io_Copy :: "string \<Rightarrow> bytes \<Rightarrow> (nat \<times> error) option"

subsection \<open>Formatting\<close>

text \<open>\<open>%d\<close> of \<open>fmt\<close> and of the template: decimal digits, a minus sign for negatives.\<close>

definition digit_char :: "nat \<Rightarrow> char" where
  "digit_char d = char_of (48 + d)"

fun fmt_nat :: "nat \<Rightarrow> string" where
  "fmt_nat n = (if n < 10 then [digit_char n] else fmt_nat (n div 10) @ [digit_char (n mod 10)])"

declare fmt_nat.simps [simp del]

definition fmt_int :: "int \<Rightarrow> string" where
  "fmt_int i = (if i < 0 then CHR ''-'' # fmt_nat (nat (- i)) else fmt_nat (nat i))"

subsection \<open>Dependencies\<close>

text \<open>\<open>strings.Split(s, sep)\<close> for a separator of one byte: the pieces between the
  occurrences of the separator, never an empty list.\<close>

fun strings_Split :: "string \<Rightarrow> char \<Rightarrow> string list" where
  "strings_Split [] c = [[]]"
| "strings_Split (x # xs) c =
     (if x = c then [] # strings_Split xs c
      else (case strings_Split xs c of
              [] \<Rightarrow> [[x]]
            | y # ys \<Rightarrow> (x # y) # ys))"

text \<open>The first loop of \<open>removeSelfProvidedDeps\<close>: \<open>providedDepsMap\<close>; the element \<open>[0]\<close>
  of the split exists because the split is never empty.\<close>

definition providedDepsMap :: "string list \<Rightarrow> (string \<rightharpoonup> bool)" where
  "providedDepsMap providedDeps =
     fold (\<lambda>versionedDep m. m(hd (strings_Split versionedDep (CHR ''='')) \<mapsto> True))
       providedDeps Map.empty"

definition removeSelfProvidedDeps :: "string list \<Rightarrow> string list \<Rightarrow> string list" where
  "removeSelfProvidedDeps runtimeDeps providedDeps =
     fold (\<lambda>dep newRuntimeDeps.
             (case providedDepsMap providedDeps dep of
                Some _ \<Rightarrow> newRuntimeDeps
              | None \<Rightarrow> newRuntimeDeps @ [dep]))
       runtimeDeps []"

text \<open>\<open>GenerateDependencies\<close>.  The deferred \<open>logFile.Close()\<close> runs on both returns that
  follow it.\<close>

definition GenerateDependencies ::
  "env \<Rightarrow> PackageBuild \<Rightarrow> world \<Rightarrow> error option \<times> PackageBuild \<times> world" where
  "GenerateDependencies env pc w =
     (case sca_Analyze env pc of
        Inl err \<Rightarrow> (Some (Wrapf ''analyzing package'' err), pc, w)
      | Inr generated \<Rightarrow>
          (let logging = (DependencyLog (Build pc) \<noteq> []);
               path = DependencyLog (Build pc) @ ''.'' @ Arch pc;
               w1 = (if logging then
                       (let wc = emit (Create path) (emit (LogInfo ''writing dependency log'') w)
                        in case os_Create env path of
                             Some err \<Rightarrow>
                               emit (LogWarn (''Unable to open dependency log: '' @ error_msg err)) wc
                           | None \<Rightarrow> wc)
                     else w);
               w2 = (if logging then emit (Encode path generated) w1 else w1);
               encoded = (if logging then json_Encode env (os_Create env path = None) generated
                          else None);
               closed = (\<lambda>v. if logging then emit (Close path) v else v)
           in case encoded of
                Some err \<Rightarrow> (Some err, pc, closed w2)
              | None \<Rightarrow>
                  (let unvendored = removeSelfProvidedDeps (Runtime generated) (Vendored generated);
                       newruntime = Runtime (Dependencies pc) @ unvendored;
                       d1 = (Dependencies pc)\<lparr> Runtime := util_Dedup env newruntime \<rparr>;
                       newprovides = Provides d1 @ Provides generated;
                       d2 = d1\<lparr> Provides := util_Dedup env newprovides \<rparr>;
                       d3 = d2\<lparr> Runtime := removeSelfProvidedDeps (Runtime d2) (Provides d2) \<rparr>;
                       d4 = d3\<lparr> Vendored := util_Dedup env (Vendored generated) \<rparr>;
                       d5 = Summarize env d4
                   in (None, pc\<lparr> Dependencies := d5 \<rparr>, closed w2))))"

subsection \<open>Compressor threads\<close>

definition min_go :: "int \<Rightarrow> int \<Rightarrow> int" where
  "min_go l r = (if l < r then l else r)"

text \<open>The package variable \<open>pgzipThreads\<close>: initialised once, from \<open>runtime.GOMAXPROCS(0)\<close>.\<close>

definition pgzipThreads :: "env \<Rightarrow> int" where
  "pgzipThreads env = min_go (GOMAXPROCS env) 8"

subsection \<open>Build log, identity and paths\<close>

text \<open>\<open>AppendBuildLog\<close>, with the line it formats (\<open>buildLogLine\<close>); the permission
  \<open>0644\<close> is 420.  The deferred \<open>f.Close()\<close> runs when the function returns after a
  successful open.\<close>

definition buildLogLine :: "PackageBuild \<Rightarrow> string" where
  "buildLogLine pc =
     Arch pc @ ''|'' @ OriginName pc @ ''|'' @ PackageName pc @ ''|''
     @ Version (Origin pc) @ ''-r'' @ fmt_nat (Epoch (Origin pc)) @ [newline]"

definition AppendBuildLog ::
  "env \<Rightarrow> PackageBuild \<Rightarrow> string \<Rightarrow> world \<Rightarrow> error option \<times> world" where
  "AppendBuildLog env pc dir w =
     (if \<not> CreateBuildLog (Build pc) then (None, w)
      else
        (let path = filepath_Join env [dir, ''packages.log''];
             w1 = emit (OpenFile path [O_APPEND, O_CREATE, O_WRONLY] 420) w
         in case os_OpenFile env path of
              Some err \<Rightarrow> (Some err, w1)
            | None \<Rightarrow>
                (let w2 = emit (WriteString path (buildLogLine pc)) w1
                 in (file_WriteString env path (buildLogLine pc), emit (Close path) w2))))"

definition Identity :: "PackageBuild \<Rightarrow> string" where
  "Identity pc =
     PackageName pc @ ''-'' @ Version (Origin pc) @ ''-r'' @ fmt_nat (Epoch (Origin pc))"

definition Filename :: "PackageBuild \<Rightarrow> string" where
  "Filename pc = OutDir pc @ ''/'' @ Identity pc @ ''.apk''"

definition WorkspaceSubdir :: "env \<Rightarrow> PackageBuild \<Rightarrow> string" where
  "WorkspaceSubdir env pc =
     filepath_Join env [WorkspaceDir (Build pc), ''melange-out'', PackageName pc]"

definition SignatureName :: "env \<Rightarrow> PackageBuild \<Rightarrow> string" where
  "SignatureName env pc = ''.SIGN.RSA.'' @ filepath_Base env (SigningKey (Build pc)) @ ''.pub''"

definition wantSignature :: "PackageBuild \<Rightarrow> bool" where
  "wantSignature pc = (SigningKey (Build pc) \<noteq> [])"

definition Signer :: "PackageBuild \<Rightarrow> KeyApkSigner" where
  "Signer pc =
     \<lparr> KeyFile = SigningKey (Build pc), KeyPassphrase = SigningPassphrase (Build pc) \<rparr>"

subsection \<open>The control section\<close>

text \<open>\<open>controlTemplate\<close>, executed on a \<open>PackageBuild\<close>: the lines it emits, in order.
  Every action that opens with \<open>{{-\<close> removes the newline before it, so each line of the
  template, when it is emitted at all, is preceded by exactly one newline, and the text
  ends with one.\<close>

definition controlTemplate :: "PackageBuild \<Rightarrow> string list" where
  "controlTemplate pc =
     [ ''# Generated by melange.'',
       ''pkgname = '' @ PackageName pc,
       ''pkgver = '' @ Version (Origin pc) @ ''-r'' @ fmt_nat (Epoch (Origin pc)),
       ''arch = '' @ Arch pc,
       ''size = '' @ fmt_int (sint (InstalledSize pc)),
       ''origin = '' @ OriginName pc,
       ''pkgdesc = '' @ Description pc,
       ''url = '' @ URL pc,
       ''commit = '' @ Commit pc ]
     @ (if SourceDateEpoch (Build pc) \<noteq> 0
        then [''builddate = '' @ fmt_int (SourceDateEpoch (Build pc))] else [])
     @ map (\<lambda>copyright. ''license = '' @ License copyright) (Copyright (Origin pc))
     @ map (\<lambda>dep. ''depend = '' @ dep) (Runtime (Dependencies pc))
     @ map (\<lambda>dep. ''provides = '' @ dep) (Provides (Dependencies pc))
     @ map (\<lambda>dep. ''replaces = '' @ dep) (Replaces (Dependencies pc))
     @ map (\<lambda>dep. ''# vendored = '' @ dep) (Vendored (Dependencies pc))
     @ (if ProviderPriority (Dependencies pc) \<noteq> 0
        then [''provider_priority = '' @ fmt_int (ProviderPriority (Dependencies pc))] else [])
     @ (if Paths (Trigger (Scriptlets pc)) \<noteq> []
        then [''triggers = '' @ concat (map (\<lambda>item. item @ '' '') (Paths (Trigger (Scriptlets pc))))]
        else [])
     @ [''datahash = '' @ DataHash pc]"

definition GenerateControlData :: "PackageBuild \<Rightarrow> error + bytes" where
  "GenerateControlData pc = Inr (concat (map (\<lambda>l. l @ [newline]) (controlTemplate pc)))"

definition wrapf :: "string \<Rightarrow> error + 'a \<Rightarrow> error + 'a" where
  "wrapf p r = (case r of Inl err \<Rightarrow> Inl (Wrapf p err) | Inr x \<Rightarrow> Inr x)"

definition and_then :: "error + 'a \<Rightarrow> ('a \<Rightarrow> error + 'b) \<Rightarrow> error + 'b" where
  "and_then r k = (case r of Inl err \<Rightarrow> Inl err | Inr x \<Rightarrow> k x)"

text \<open>\<open>memfs.WriteFile\<close> of a top-level file: the file is created or replaced.\<close>

definition memfs_WriteFile :: "memfs \<Rightarrow> string \<Rightarrow> bytes \<Rightarrow> nat \<Rightarrow> error + memfs" where
  "memfs_WriteFile fsys name data perm =
     Inr (filter (\<lambda>f. fst f \<noteq> name) fsys @ [(name, data, perm)])"

text \<open>One of the seven blocks \<open>if body != "" { WriteFile(name, body, 0755) }\<close> of
  \<open>generateControlSection\<close>; \<open>0755\<close> is 493.\<close>

definition writeScriptlet :: "string \<Rightarrow> string \<Rightarrow> memfs \<Rightarrow> error + memfs" where
  "writeScriptlet name body fsys =
     (if body \<noteq> [] then wrapf ''unable to build control FS'' (memfs_WriteFile fsys name body 493)
      else Inr fsys)"

text \<open>The file system \<open>fsys\<close> that \<open>generateControlSection\<close> builds from the rendered
  control data (\<open>0644\<close> is 420).\<close>

definition controlFS :: "PackageBuild \<Rightarrow> bytes \<Rightarrow> error + memfs" where
  "controlFS pc controlBuf =
     and_then (wrapf ''unable to build control FS'' (memfs_WriteFile [] ''.PKGINFO'' controlBuf 420))
    (\<lambda>fsys. and_then (writeScriptlet ''.trigger'' (Script (Trigger (Scriptlets pc))) fsys)
    (\<lambda>fsys. and_then (writeScriptlet ''.pre-install'' (PreInstall (Scriptlets pc)) fsys)
    (\<lambda>fsys. and_then (writeScriptlet ''.post-install'' (PostInstall (Scriptlets pc)) fsys)
    (\<lambda>fsys. and_then (writeScriptlet ''.pre-deinstall'' (PreDeinstall (Scriptlets pc)) fsys)
    (\<lambda>fsys. and_then (writeScriptlet ''.post-deinstall'' (PostDeinstall (Scriptlets pc)) fsys)
    (\<lambda>fsys. and_then (writeScriptlet ''.pre-upgrade'' (PreUpgrade (Scriptlets pc)) fsys)
    (\<lambda>fsys. writeScriptlet ''.post-upgrade'' (PostUpgrade (Scriptlets pc)) fsys)))))))"

definition controlTarctx :: "PackageBuild \<Rightarrow> tarctx" where
  "controlTarctx pc =
     (default_tarctx (SourceDateEpoch (Build pc)))
       \<lparr> WithOverrideUIDGID := Some (0, 0), WithOverrideUname := Some ''root'',
         WithOverrideGname := Some ''root'', WithSkipClose := True \<rparr>"

definition generateControlSection :: "env \<Rightarrow> PackageBuild \<Rightarrow> error + bytes" where
  "generateControlSection env pc =
     (case tarball_NewContext env (controlTarctx pc) of
        Some err \<Rightarrow> Inl (Wrapf ''unable to build tarball context'' err)
      | None \<Rightarrow>
          and_then (wrapf ''unable to process control template'' (GenerateControlData pc))
            (\<lambda>controlBuf. and_then (controlFS pc controlBuf)
            (\<lambda>fsys.
               (case tarball_WriteTar env (controlTarctx pc) (MemFS fsys) (MemFS fsys) of
                  (tar, Some err) \<Rightarrow> Inl (Wrapf ''unable to write control tarball'' err)
                | (tar, None) \<Rightarrow>
                    (case gzip_Close env tar of
                       Some err \<Rightarrow> Inl (Wrapf ''flushing control section gzip'' err)
                     | None \<Rightarrow> Inr (gzip_Compress env tar))))))"

subsection \<open>Installed size\<close>

text \<open>\<open>fs.WalkDir\<close>: the callback is called on the root and then, depth first, on every
  entry \<open>ReadDir\<close> returns; a non-nil result stops the walk.  When \<open>Stat\<close> of the root
  fails the callback is called once, with that error; when \<open>ReadDir\<close> fails it is called
  a second time on the directory, with that error.  The callback receives what \<open>d.Info()\<close>
  returns, the error, and the state it updates (the sentinel \<open>SkipDir\<close>, which the
  callback of this file never returns, is left out).\<close>

fun entry_Info :: "fstree \<Rightarrow> error + FileInfo" where
  "entry_Info (Leaf name info) = info"
| "entry_Info (Dir name info rerr entries) = info"

fun walkDir ::
    "((error + FileInfo) \<Rightarrow> error option \<Rightarrow> 's \<Rightarrow> error option \<times> 's) \<Rightarrow> fstree \<Rightarrow> 's
      \<Rightarrow> error option \<times> 's"
  and walkDirs ::
    "((error + FileInfo) \<Rightarrow> error option \<Rightarrow> 's \<Rightarrow> error option \<times> 's) \<Rightarrow> fstree list \<Rightarrow> 's
      \<Rightarrow> error option \<times> 's" where
  "walkDir fn (Leaf name info) s = fn info None s"
| "walkDir fn (Dir name info rerr entries) s =
     (case fn info None s of
        (Some err, s1) \<Rightarrow> (Some err, s1)
      | (None, s1) \<Rightarrow>
          (case rerr of
             Some err \<Rightarrow>
               (case fn info (Some err) s1 of
                  (Some err2, s2) \<Rightarrow> (Some err2, s2)
                | (None, s2) \<Rightarrow> walkDirs fn entries s2)
           | None \<Rightarrow> walkDirs fn entries s1))"
| "walkDirs fn [] s = (None, s)"
| "walkDirs fn (d # ds) s =
     (case walkDir fn d s of
        (Some err, s1) \<Rightarrow> (Some err, s1)
      | (None, s1) \<Rightarrow> walkDirs fn ds s1)"

definition fs_WalkDir ::
  "fstree \<Rightarrow> ((error + FileInfo) \<Rightarrow> error option \<Rightarrow> 's \<Rightarrow> error option \<times> 's) \<Rightarrow> 's
    \<Rightarrow> error option \<times> 's" where
  "fs_WalkDir root fn s =
     (case entry_Info root of
        Inl err \<Rightarrow> fn (Inl err) (Some err) s
      | Inr info \<Rightarrow> walkDir fn root s)"

text \<open>The function literal that \<open>calculateInstalledSize\<close> passes to \<open>fs.WalkDir\<close>;
  \<open>+=\<close> on an \<open>int64\<close> wraps.\<close>

definition installedSizeFn ::
  "(error + FileInfo) \<Rightarrow> error option \<Rightarrow> PackageBuild \<Rightarrow> error option \<times> PackageBuild" where
  "installedSizeFn d err pc =
     (case err of
        Some e \<Rightarrow> (Some e, pc)
      | None \<Rightarrow>
          (case d of
             Inl e \<Rightarrow> (Some e, pc)
           | Inr fi \<Rightarrow> (None, pc\<lparr> InstalledSize := InstalledSize pc + Size fi \<rparr>)))"

definition calculateInstalledSize ::
  "PackageBuild \<Rightarrow> fstree \<Rightarrow> error option \<times> PackageBuild" where
  "calculateInstalledSize pc fsys =
     (case fs_WalkDir fsys installedSizeFn pc of
        (Some err, pc1) \<Rightarrow> (Some (Wrapf ''unable to preprocess package data'' err), pc1)
      | (None, pc1) \<Rightarrow> (None, pc1))"

subsection \<open>The data section\<close>

text \<open>\<open>hex.EncodeToString\<close>.\<close>

definition hextable :: string where
  "hextable = ''0123456789abcdef''"

definition hex_EncodeToString :: "bytes \<Rightarrow> string" where
  "hex_EncodeToString src =
     concat (map (\<lambda>v. [hextable ! (of_char v div 16), hextable ! (of_char v mod 16)]) src)"

text \<open>The \<open>io.WriteSeeker\<close> handed to \<open>emitDataSection\<close> is a file: its name, its
  contents and the offset of the next write.  A write replaces the bytes from the offset
  on (a gap before the offset reads as zero bytes) and moves the offset; a failed write
  has written a prefix.\<close>

record wfile =
  f_name :: string
  f_content :: bytes
  f_pos :: nat

definition put_at :: "nat \<Rightarrow> bytes \<Rightarrow> bytes \<Rightarrow> bytes" where
  "put_at pos p content =
     take pos content @ replicate (pos - length content) (CHR 0x00) @ p
     @ drop (pos + length p) content"

definition wfile_Write :: "env \<Rightarrow> bytes \<Rightarrow> wfile \<Rightarrow> error option \<times> wfile" where
  "wfile_Write env p f =
     (case file_Write env (f_name f) (f_pos f) p of
        Some (n, err) \<Rightarrow>
          (Some err, f\<lparr> f_content := put_at (f_pos f) (take n p) (f_content f),
                        f_pos := f_pos f + length (take n p) \<rparr>)
      | None \<Rightarrow>
          (None, f\<lparr> f_content := put_at (f_pos f) p (f_content f),
                    f_pos := f_pos f + length p \<rparr>))"

text \<open>\<open>io.MultiWriter(digest, w).Write(p)\<close>: the digest takes \<open>p\<close> first (a hash never
  fails), then \<open>w\<close>; the digest is modelled by the bytes written into it so far.  Then
  the blocks a compressor hands to the multi-writer, one after the other, until one of
  the writes fails.\<close>

definition MultiWriter_Write ::
  "env \<Rightarrow> bytes \<Rightarrow> bytes \<times> wfile \<Rightarrow> error option \<times> (bytes \<times> wfile)" where
  "MultiWriter_Write env p mw =
     (case wfile_Write env p (snd mw) of
        (r, f1) \<Rightarrow> (r, (fst mw @ p, f1)))"

fun write_blocks ::
  "env \<Rightarrow> bytes list \<Rightarrow> bytes \<times> wfile \<Rightarrow> error option \<times> (bytes \<times> wfile)" where
  "write_blocks env [] mw = (None, mw)"
| "write_blocks env (p # ps) mw =
     (case MultiWriter_Write env p mw of
        (Some err, mw1) \<Rightarrow> (Some err, mw1)
      | (None, mw1) \<Rightarrow> write_blocks env ps mw1)"

definition dataTarctx :: "PackageBuild \<Rightarrow> (int \<rightharpoonup> int) \<Rightarrow> (int \<rightharpoonup> int) \<Rightarrow> tarctx" where
  "dataTarctx pc remapUIDs remapGIDs =
     (default_tarctx (SourceDateEpoch (Build pc)))
       \<lparr> WithRemapUIDs := remapUIDs, WithRemapGIDs := remapGIDs, WithUseChecksums := True \<rparr>"

text \<open>\<open>emitDataSection\<close>.  A failed write of a compressed block surfaces from
  \<open>WriteTar\<close> while the tar stream is written, and from \<open>Close\<close> afterwards.\<close>

definition emitDataSection ::
  "env \<Rightarrow> PackageBuild \<Rightarrow> fsview \<Rightarrow> fsview \<Rightarrow> (int \<rightharpoonup> int) \<Rightarrow> (int \<rightharpoonup> int) \<Rightarrow> wfile \<Rightarrow> world
    \<Rightarrow> error option \<times> PackageBuild \<times> wfile \<times> world" where
  "emitDataSection env pc fsys userinfofs remapUIDs remapGIDs f w =
     (let tarctx = dataTarctx pc remapUIDs remapGIDs
      in case tarball_NewContext env tarctx of
           Some err \<Rightarrow> (Some (Wrapf ''unable to build tarball context'' err), pc, f, w)
         | None \<Rightarrow>
             (let w1 = emit (SetConcurrency (2 ^ 20) (pgzipThreads env)) w
              in case pgzip_SetConcurrency env (2 ^ 20) (pgzipThreads env) of
                   Some err \<Rightarrow>
                     (Some (Wrapf (''tried to set pgzip concurrency to ''
                                   @ fmt_int (pgzipThreads env)) err), pc, f, w1)
                 | None \<Rightarrow>
                     (case tarball_WriteTar env tarctx fsys userinfofs of
                        (tar, terr) \<Rightarrow>
                          (case write_blocks env (pgzip_Write env (2 ^ 20) (pgzipThreads env) tar)
                                  ([], f) of
                             (Some err, (digest, f1)) \<Rightarrow>
                               (Some (Wrapf ''unable to write data tarball'' err), pc, f1, w1)
                           | (None, (digest, f1)) \<Rightarrow>
                               (case terr of
                                  Some err \<Rightarrow>
                                    (Some (Wrapf ''unable to write data tarball'' err), pc, f1, w1)
                                | None \<Rightarrow>
                                    (case write_blocks env
                                            (pgzip_Close env (2 ^ 20) (pgzipThreads env) tar)
                                            (digest, f1) of
                                       (Some err, (digest2, f2)) \<Rightarrow>
                                         (Some (Wrapf ''flushing data section gzip'' err), pc, f2, w1)
                                     | (None, (digest2, f2)) \<Rightarrow>
                                         (let pc1 = pc\<lparr> DataHash :=
                                                      hex_EncodeToString (sha256_Sum env digest2) \<rparr>;
                                              w2 = emit (LogInfo (''  data.tar.gz digest: ''
                                                                  @ DataHash pc1)) w1;
                                              w3 = emit (Seek (f_name f2)) w2
                                          in case file_Seek env (f_name f2) of
                                               Some err \<Rightarrow>
                                                 (Some (Wrapf ''unable to rewind data tarball'' err),
                                                  pc1, f2, w3)
                                             | None \<Rightarrow> (None, pc1, f2\<lparr> f_pos := 0 \<rparr>, w3))))))))"

subsection \<open>Assembly\<close>

text \<open>\<open>combine\<close>: \<open>io.Copy\<close> of every input into the file \<open>out\<close>, in order, until one
  fails.\<close>

definition append_file :: "string \<Rightarrow> bytes \<Rightarrow> world \<Rightarrow> world" where
  "append_file out p w =
     w\<lparr> files := (files w)(out \<mapsto> (case files w out of None \<Rightarrow> p | Some old \<Rightarrow> old @ p)) \<rparr>"

fun combine :: "env \<Rightarrow> string \<Rightarrow> bytes list \<Rightarrow> world \<Rightarrow> error option \<times> world" where
  "combine env out [] w = (None, w)"
| "combine env out (input # inputs) w =
     (case io_Copy env out input of
        Some (n, err) \<Rightarrow> (Some err, append_file out (take n input) w)
      | None \<Rightarrow> combine env out inputs (append_file out input w))"

text \<open>The two loops of \<open>EmitPackage\<close> over the accounts: the last account named
  \<open>build\<close>, or the zero value.\<close>

definition buildUser :: "User list \<Rightarrow> User" where
  "buildUser users =
     fold (\<lambda>user b. if UserName user = ''build'' then user else b) users
       \<lparr> UserName = [], UID = 0 \<rparr>"

definition buildGroup :: "Group list \<Rightarrow> Group" where
  "buildGroup groups =
     fold (\<lambda>group b. if GroupName group = ''build'' then group else b) groups
       \<lparr> GroupName = [], GID = 0 \<rparr>"

definition remapUIDs :: "PackageBuild \<Rightarrow> (int \<rightharpoonup> int)" where
  "remapUIDs pc = Map.empty(int (UID (buildUser (Users (Build pc)))) \<mapsto> 0)"

definition remapGIDs :: "PackageBuild \<Rightarrow> (int \<rightharpoonup> int)" where
  "remapGIDs pc = Map.empty(int (GID (buildGroup (Groups (Build pc)))) \<mapsto> 0)"

text \<open>\<open>EmitPackage\<close>, in three parts that follow its deferred calls: the part after
  \<open>outFile\<close> is created (followed by \<open>outFile.Close()\<close>), the part after \<open>dataTarGz\<close> is
  created (followed by \<open>os.Remove\<close> and \<open>dataTarGz.Close()\<close>), and the whole.  The reader
  over \<open>dataTarGz\<close> yields the contents of the file from its offset on.  The tracing span
  is left out.\<close>

definition EmitPackage_outFile ::
  "env \<Rightarrow> PackageBuild \<Rightarrow> bytes list \<Rightarrow> world \<Rightarrow> error option \<times> world" where
  "EmitPackage_outFile env pc combinedParts w =
     (case combine env (Filename pc) combinedParts w of
        (Some err, w1) \<Rightarrow> (Some (Wrapf ''unable to write apk file'' err), w1)
      | (None, w1) \<Rightarrow>
          (let w2 = emit (LogInfo (''wrote '' @ Filename pc)) w1
           in case AppendBuildLog env pc [] w2 of
                (Some err, w3) \<Rightarrow>
                  (None, emit (LogWarn (''unable to append package log: '' @ error_msg err)) w3)
              | (None, w3) \<Rightarrow> (None, w3)))"

definition EmitPackage_dataTarGz ::
  "env \<Rightarrow> PackageBuild \<Rightarrow> fstree \<Rightarrow> fstree \<Rightarrow> string \<Rightarrow> world
    \<Rightarrow> error option \<times> PackageBuild \<times> world" where
  "EmitPackage_dataTarGz env pc fsys userinfofs tmp w =
     (case emitDataSection env pc (DiskFS fsys) (DiskFS userinfofs) (remapUIDs pc) (remapGIDs pc)
             \<lparr> f_name = tmp, f_content = [], f_pos = 0 \<rparr> w of
        (Some err, pc1, dataTarGz, w1) \<Rightarrow> (Some err, pc1, w1)
      | (None, pc1, dataTarGz, w1) \<Rightarrow>
          (case generateControlSection env pc1 of
             Inl err \<Rightarrow> (Some err, pc1, w1)
           | Inr controlSectionData \<Rightarrow>
               (let combinedParts =
                      [controlSectionData, drop (f_pos dataTarGz) (f_content dataTarGz)]
                in case (if wantSignature pc1
                         then (case EmitSignature env (Signer pc1) controlSectionData
                                      (SourceDateEpoch (Build pc1)) of
                                 Inl err \<Rightarrow> Inl (Wrapf ''emitting signature'' err)
                               | Inr signatureData \<Rightarrow> Inr ([signatureData] @ combinedParts))
                         else Inr combinedParts) of
                     Inl err \<Rightarrow> (Some err, pc1, w1)
                   | Inr combinedParts \<Rightarrow>
                       (let w2 = emit (MkdirAll (OutDir pc1) 493) w1
                        in case os_MkdirAll env (OutDir pc1) of
                             Some err \<Rightarrow>
                               (Some (Wrapf ''unable to create output directory'' err), pc1, w2)
                           | None \<Rightarrow>
                               (let w3 = emit (Create (Filename pc1)) w2
                                in case os_Create env (Filename pc1) of
                                     Some err \<Rightarrow>
                                       (Some (Wrapf ''unable to create apk file'' err), pc1, w3)
                                   | None \<Rightarrow>
                                       (case EmitPackage_outFile env pc1 combinedParts
                                               (w3\<lparr> files := (files w3)(Filename pc1 \<mapsto> []) \<rparr>) of
                                          (r, w4) \<Rightarrow>
                                            (r, pc1, emit (Close (Filename pc1)) w4)))))))"

definition EmitPackage ::
  "env \<Rightarrow> PackageBuild \<Rightarrow> world \<Rightarrow> error option \<times> PackageBuild \<times> world" where
  "EmitPackage env pc w =
     (let w1 = emit (MkdirAll (WorkspaceSubdir env pc) 493) w
      in case os_MkdirAll env (WorkspaceSubdir env pc) of
           Some err \<Rightarrow> (Some (Wrapf ''unable to ensure workspace exists'' err), pc, w1)
         | None \<Rightarrow>
             (let w2 = emit (LogInfo (''generating package '' @ Identity pc)) w1;
                  fsys = readlinkFS env (WorkspaceSubdir env pc);
                  userinfofs = os_DirFS env (GuestDir (Build pc))
              in case GenerateDependencies env pc w2 of
                   (Some err, pc1, w3) \<Rightarrow>
                     (Some (Wrapf ''unable to build final dependencies set'' err), pc1, w3)
                 | (None, pc1, w3) \<Rightarrow>
                     (case calculateInstalledSize pc1 fsys of
                        (Some err, pc2) \<Rightarrow> (Some err, pc2, w3)
                      | (None, pc2) \<Rightarrow>
                          (let w4 = emit (LogInfo (''  installed-size: ''
                                                   @ fmt_int (sint (InstalledSize pc2)))) w3;
                               w5 = emit (CreateTemp ''melange-data-*.tar.gz'') w4
                           in case os_CreateTemp env ''melange-data-*.tar.gz'' of
                                Inl err \<Rightarrow>
                                  (Some (Wrapf ''unable to open temporary file for writing'' err),
                                   pc2, w5)
                              | Inr tmp \<Rightarrow>
                                  (case EmitPackage_dataTarGz env pc2 fsys userinfofs tmp w5 of
                                     (r, pc3, w6) \<Rightarrow>
                                       (r, pc3, emit (Close tmp) (emit (Remove tmp) w6)))))))"

subsection \<open>Notions used to state the properties\<close>

text \<open>The unversioned name of a dependency entry: the substring before the first \<open>=\<close>.\<close>

definition unversioned :: "string \<Rightarrow> string" where
  "unversioned dep = takeWhile (\<lambda>x. x \<noteq> CHR ''='') dep"

text \<open>What is assumed of the two functions of other files that \<open>GenerateDependencies\<close>
  calls: \<open>util.Dedup\<close> returns the entries it is given (in some order, each once or more),
  and \<open>Summarize\<close> keeps the entries of Runtime and Provides.\<close>

definition keeps_entries :: "env \<Rightarrow> bool" where
  "keeps_entries env \<longleftrightarrow>
     (\<forall>xs. set (util_Dedup env xs) = set xs) \<and>
     (\<forall>d. set (Runtime (Summarize env d)) = set (Runtime d) \<and>
          set (Provides (Summarize env d)) = set (Provides d))"

definition finalDeps :: "env \<Rightarrow> PackageBuild \<Rightarrow> world \<Rightarrow> Dependencies" where
  "finalDeps env pc w = Dependencies (fst (snd (GenerateDependencies env pc w)))"

definition dependencyLogPath :: "PackageBuild \<Rightarrow> string" where
  "dependencyLogPath pc = DependencyLog (Build pc) @ ''.'' @ Arch pc"

text \<open>The sum of \<open>Size()\<close> over every entry of a tree, and over its regular files only.\<close>

fun entry_size :: "fstree \<Rightarrow> 64 word" where
  "entry_size d = (case entry_Info d of Inl e \<Rightarrow> 0 | Inr fi \<Rightarrow> Size fi)"

fun all_sizes :: "fstree \<Rightarrow> 64 word" and all_sizes_list :: "fstree list \<Rightarrow> 64 word" where
  "all_sizes (Leaf name info) = entry_size (Leaf name info)"
| "all_sizes (Dir name info rerr entries) =
     entry_size (Dir name info rerr entries) + all_sizes_list entries"
| "all_sizes_list [] = 0"
| "all_sizes_list (d # ds) = all_sizes d + all_sizes_list ds"

fun is_regular :: "fstree \<Rightarrow> bool" where
  "is_regular d = (case entry_Info d of Inl e \<Rightarrow> False | Inr fi \<Rightarrow> Type fi = Regular)"

fun regular_sizes :: "fstree \<Rightarrow> 64 word" and regular_sizes_list :: "fstree list \<Rightarrow> 64 word" where
  "regular_sizes (Leaf name info) =
     (if is_regular (Leaf name info) then entry_size (Leaf name info) else 0)"
| "regular_sizes (Dir name info rerr entries) =
     (if is_regular (Dir name info rerr entries) then entry_size (Dir name info rerr entries) else 0)
     + regular_sizes_list entries"
| "regular_sizes_list [] = 0"
| "regular_sizes_list (d # ds) = regular_sizes d + regular_sizes_list ds"

fun other_sizes :: "fstree \<Rightarrow> 64 word" and other_sizes_list :: "fstree list \<Rightarrow> 64 word" where
  "other_sizes (Leaf name info) =
     (if is_regular (Leaf name info) then 0 else entry_size (Leaf name info))"
| "other_sizes (Dir name info rerr entries) =
     (if is_regular (Dir name info rerr entries) then 0 else entry_size (Dir name info rerr entries))
     + other_sizes_list entries"
| "other_sizes_list [] = 0"
| "other_sizes_list (d # ds) = other_sizes d + other_sizes_list ds"

text \<open>The compressed blocks of the data section for a tar stream, the tar stream
  \<open>EmitPackage\<close> asks for, and the bytes of its data section.\<close>

definition dataBlocks :: "env \<Rightarrow> bytes \<Rightarrow> bytes list" where
  "dataBlocks env tar =
     pgzip_Write env (2 ^ 20) (pgzipThreads env) tar
     @ pgzip_Close env (2 ^ 20) (pgzipThreads env) tar"

definition dataTar :: "env \<Rightarrow> PackageBuild \<Rightarrow> bytes" where
  "dataTar env pc =
     fst (tarball_WriteTar env (dataTarctx pc (remapUIDs pc) (remapGIDs pc))
            (DiskFS (readlinkFS env (WorkspaceSubdir env pc)))
            (DiskFS (os_DirFS env (GuestDir (Build pc)))))"

definition dataSection :: "env \<Rightarrow> PackageBuild \<Rightarrow> bytes" where
  "dataSection env pc = concat (dataBlocks env (dataTar env pc))"

text \<open>The seven scriptlets with the names of their files, the files written for those
  with a body, and the text of \<open>.PKGINFO\<close>.\<close>

definition scriptlets :: "PackageBuild \<Rightarrow> (string \<times> string) list" where
  "scriptlets pc =
     [(''.trigger'', Script (Trigger (Scriptlets pc))),
      (''.pre-install'', PreInstall (Scriptlets pc)),
      (''.post-install'', PostInstall (Scriptlets pc)),
      (''.pre-deinstall'', PreDeinstall (Scriptlets pc)),
      (''.post-deinstall'', PostDeinstall (Scriptlets pc)),
      (''.pre-upgrade'', PreUpgrade (Scriptlets pc)),
      (''.post-upgrade'', PostUpgrade (Scriptlets pc))]"

definition scriptletFiles :: "PackageBuild \<Rightarrow> memfs" where
  "scriptletFiles pc =
     concat (map (\<lambda>(name, body). if body \<noteq> [] then [(name, body, 493)] else []) (scriptlets pc))"

definition controlText :: "PackageBuild \<Rightarrow> bytes" where
  "controlText pc = concat (map (\<lambda>l. l @ [newline]) (controlTemplate pc))"

subsection \<open>A concrete environment and package for the examples\<close>

text \<open>Every call succeeds; paths are joined with a slash; \<open>Dedup\<close> keeps the first
  occurrence of every entry; the archive writer, the compressors, the digest and the signer
  are small stand-ins.\<close>

definition tree0 :: fstree where
  "tree0 = Dir ''.'' (Inr \<lparr> Size = 4096, Type = Directory \<rparr>) None
             [Leaf ''hello'' (Inr \<lparr> Size = 10, Type = Regular \<rparr>)]"

definition env0 :: env where
  "env0 =
     \<lparr> GOMAXPROCS = 4,
       filepath_Join = (\<lambda>elems. foldr (\<lambda>e r. if e = [] then r else if r = [] then e else e @ ''/'' @ r) elems []),
       filepath_Base = (\<lambda>p. p),
       os_MkdirAll = (\<lambda>p. None),
       os_OpenFile = (\<lambda>p. None),
       file_WriteString = (\<lambda>p s. None),
       os_Create = (\<lambda>p. None),
       os_CreateTemp = (\<lambda>p. Inr ''/tmp/melange-data-1.tar.gz''),
       sca_Analyze = (\<lambda>pc. Inr \<lparr> Runtime = [], Provides = [''foo=1.0''], Replaces = [],
                                  ProviderPriority = 0, Vendored = [] \<rparr>),
       json_Encode = (\<lambda>ok d. None),
       util_Dedup = remdups,
       Summarize = (\<lambda>d. d),
       readlinkFS = (\<lambda>p. tree0),
       os_DirFS = (\<lambda>p. Dir ''.'' (Inr \<lparr> Size = 0, Type = Directory \<rparr>) None []),
       tarball_NewContext = (\<lambda>ctx. None),
       tarball_WriteTar = (\<lambda>ctx fsys userinfofs.
          (case fsys of MemFS m \<Rightarrow> concat (map (\<lambda>f. fst f @ fst (snd f)) m) | DiskFS t \<Rightarrow> ''tar'', None)),
       pgzip_SetConcurrency = (\<lambda>bs n. None),
       pgzip_Write = (\<lambda>bs n tar. [tar]),
       pgzip_Close = (\<lambda>bs n tar. [''z'']),
       gzip_Compress = (\<lambda>tar. tar),
       gzip_Close = (\<lambda>tar. None),
       sha256_Sum = (\<lambda>p. take 2 p),
       file_Write = (\<lambda>name off p. None),
       file_Seek = (\<lambda>name. None),
       EmitSignature = (\<lambda>signer p epoch. Inr (''sig'' @ take 1 p)),
       io_Copy = (\<lambda>out p. None) \<rparr>"

definition build0 :: Build where
  "build0 =
     \<lparr> CreateBuildLog = True, SourceDateEpoch = 7, SigningKey = ''key.rsa'',
       SigningPassphrase = [], DependencyLog = ''deps'', WorkspaceDir = ''ws'',
       GuestDir = ''guest'',
       Users = [\<lparr> UserName = ''build'', UID = 1000 \<rparr>],
       Groups = [\<lparr> GroupName = ''build'', GID = 1000 \<rparr>] \<rparr>"

definition pc0 :: PackageBuild where
  "pc0 =
     \<lparr> Build = build0,
       Origin = \<lparr> Name = ''hello'', Version = ''1.0'', Epoch = 3, Copyright = [\<lparr> License = ''MIT'' \<rparr>] \<rparr>,
       PackageName = ''hello'', OriginName = ''hello'', InstalledSize = 0, DataHash = [],
       OutDir = ''out'',
       Dependencies = \<lparr> Runtime = [''foo''], Provides = [], Replaces = [],
                        ProviderPriority = 0, Vendored = [] \<rparr>,
       Arch = ''x86_64'',
       Scriptlets = \<lparr> Trigger = \<lparr> Script = [], Paths = [] \<rparr>, PreInstall = [],
                      PostInstall = ''echo'', PreDeinstall = [], PostDeinstall = [],
                      PreUpgrade = [], PostUpgrade = [] \<rparr>,
       Description = ''d'', URL = ''u'', Commit = ''c'' \<rparr>"

definition w0 :: world where
  "w0 = \<lparr> trace = [], files = Map.empty \<rparr>"

text \<open>Variants of the example: a versioned declared dependency, a package without
  declared runtime dependencies, analyzers that report a vendored library, dependency
  logs that cannot be written or opened, a build log that cannot be opened, a build without
  build log, a tree with a symlink, a build without an account named \<open>build\<close>, and a
  build without signing key.\<close>

definition pc_versioned :: PackageBuild where
  "pc_versioned = pc0\<lparr> Dependencies := (Dependencies pc0)\<lparr> Runtime := [''foo=1.0''] \<rparr> \<rparr>"

definition env_vendored :: env where
  "env_vendored = env0\<lparr> sca_Analyze := (\<lambda>pc. Inr \<lparr> Runtime = [''libbar.so''], Provides = [],
       Replaces = [], ProviderPriority = 0, Vendored = [''libbar.so=2.0''] \<rparr>) \<rparr>"

definition env_vendored_versioned :: env where
  "env_vendored_versioned = env0\<lparr> sca_Analyze := (\<lambda>pc. Inr \<lparr> Runtime = [''libbar.so=2.0''],
       Provides = [], Replaces = [], ProviderPriority = 0, Vendored = [''libbar.so=2.0''] \<rparr>) \<rparr>"

definition pc_nodeps :: PackageBuild where
  "pc_nodeps = pc0\<lparr> Dependencies := (Dependencies pc0)\<lparr> Runtime := [] \<rparr> \<rparr>"

definition env_encode_fails :: env where
  "env_encode_fails = env0\<lparr> json_Encode := (\<lambda>ok d. Some (Err ''no space left on device'')) \<rparr>"

definition env_create_fails :: env where
  "env_create_fails = env0\<lparr> os_Create := (\<lambda>p. if p = ''deps.x86_64'' then Some (Err ''permission denied'') else None),
       json_Encode := (\<lambda>ok d. if ok then None else Some (Err ''invalid argument'')) \<rparr>"

definition env_open_fails :: env where
  "env_open_fails = env0\<lparr> os_OpenFile := (\<lambda>p. Some (Err ''permission denied'')) \<rparr>"

definition pc_nolog :: PackageBuild where
  "pc_nolog = pc0\<lparr> Build := build0\<lparr> CreateBuildLog := False \<rparr> \<rparr>"

definition tree_symlink :: fstree where
  "tree_symlink = Dir ''.'' (Inr \<lparr> Size = 0, Type = Directory \<rparr>) None
     [Leaf ''bin'' (Inr \<lparr> Size = 7, Type = Symlink \<rparr>),
      Dir ''usr'' (Inr \<lparr> Size = 0, Type = Directory \<rparr>) None
        [Leaf ''hello'' (Inr \<lparr> Size = 10, Type = Regular \<rparr>)]]"

definition pc_noaccounts :: PackageBuild where
  "pc_noaccounts = pc0\<lparr> Build := build0\<lparr> Users := [\<lparr> UserName = ''root'', UID = 0 \<rparr>,
       \<lparr> UserName = ''nobody'', UID = 65534 \<rparr>], Groups := [] \<rparr> \<rparr>"

definition pc_unsigned :: PackageBuild where
  "pc_unsigned = pc0\<lparr> Build := build0\<lparr> SigningKey := [] \<rparr> \<rparr>"

section \<open>Properties\<close>

subsection \<open>Dependencies\<close>

lemma strings_Split_nonempty: "strings_Split s c \<noteq> []"
  by (induction s) (auto split: list.splits)

lemma hd_strings_Split: "hd (strings_Split s c) = takeWhile (\<lambda>x. x \<noteq> c) s"
proof (induction s)
  case Nil
  show ?case by simp
next
  case (Cons x xs)
  then show ?case
    using strings_Split_nonempty [of xs c] by (cases "strings_Split xs c") auto
qed

lemma dom_fold_provided:
  "dom (fold (\<lambda>v m. m(g v \<mapsto> True)) ps m0) = dom m0 \<union> g ` set ps"
  by (induction ps arbitrary: m0) auto

lemma dom_providedDepsMap: "dom (providedDepsMap ps) = unversioned ` set ps"
  unfolding providedDepsMap_def using dom_fold_provided [of "\<lambda>v. hd (strings_Split v (CHR ''=''))" ps Map.empty]
  by (simp add: hd_strings_Split unversioned_def)

lemma fold_keep:
  "fold (\<lambda>dep acc. case m dep of Some _ \<Rightarrow> acc | None \<Rightarrow> acc @ [dep]) rs acc0
     = acc0 @ filter (\<lambda>dep. m dep = None) rs"
  by (induction rs arbitrary: acc0) (auto split: option.splits)

lemma removeSelfProvidedDeps_filter:
  "removeSelfProvidedDeps rs ps = filter (\<lambda>dep. dep \<notin> unversioned ` set ps) rs"
proof -
  have "\<And>dep. (providedDepsMap ps dep = None) = (dep \<notin> unversioned ` set ps)"
    using dom_providedDepsMap [of ps] by (metis domIff)
  then show ?thesis
    unfolding removeSelfProvidedDeps_def by (simp add: fold_keep)
qed

lemma GenerateDependencies_result:
  "fst (GenerateDependencies env pc w) =
     (case sca_Analyze env pc of
        Inl err \<Rightarrow> Some (Wrapf ''analyzing package'' err)
      | Inr generated \<Rightarrow>
          (if DependencyLog (Build pc) \<noteq> []
           then json_Encode env (os_Create env (dependencyLogPath pc) = None) generated
           else None))"
  by (simp add: GenerateDependencies_def dependencyLogPath_def Let_def split: sum.splits option.splits)

lemma GenerateDependencies_deps:
  assumes "fst (GenerateDependencies env pc w) = None"
    and "sca_Analyze env pc = Inr generated"
  shows "finalDeps env pc w =
     Summarize env
       ((Dependencies pc)
          \<lparr> Provides := util_Dedup env (Provides (Dependencies pc) @ Provides generated),
            Runtime := removeSelfProvidedDeps
               (util_Dedup env (Runtime (Dependencies pc)
                  @ removeSelfProvidedDeps (Runtime generated) (Vendored generated)))
               (util_Dedup env (Provides (Dependencies pc) @ Provides generated)),
            Vendored := util_Dedup env (Vendored generated) \<rparr>)"
  using assms
  by (auto simp add: GenerateDependencies_def finalDeps_def Let_def split: sum.splits option.splits if_splits)

lemma final_Runtime_set:
  assumes "keeps_entries env" and "fst (GenerateDependencies env pc w) = None"
    and "sca_Analyze env pc = Inr generated"
  shows "set (Runtime (finalDeps env pc w)) =
     {r \<in> set (Runtime (Dependencies pc))
            \<union> {d \<in> set (Runtime generated). d \<notin> unversioned ` set (Vendored generated)}.
        r \<notin> unversioned ` (set (Provides (Dependencies pc)) \<union> set (Provides generated))}"
  using assms(1) unfolding GenerateDependencies_deps [OF assms(2,3)] keeps_entries_def
  by (auto simp add: removeSelfProvidedDeps_filter)

lemma final_Provides_set:
  assumes "keeps_entries env" and "fst (GenerateDependencies env pc w) = None"
    and "sca_Analyze env pc = Inr generated"
  shows "set (Provides (finalDeps env pc w)) =
     set (Provides (Dependencies pc)) \<union> set (Provides generated)"
  using assms(1) unfolding GenerateDependencies_deps [OF assms(2,3)] keeps_entries_def
  by (auto simp add: removeSelfProvidedDeps_filter)

lemma analysed:
  assumes "fst (GenerateDependencies env pc w) = None"
  obtains generated where "sca_Analyze env pc = Inr generated"
  using assms by (cases "sca_Analyze env pc") (auto simp add: GenerateDependencies_result)

lemma keeps_entries_env0: "keeps_entries env0"
  by (simp add: keeps_entries_def env0_def)

lemma unversioned_simps [simp]:
  "unversioned [] = []"
  "unversioned (x # xs) = (if x = CHR ''='' then [] else x # unversioned xs)"
  by (simp_all add: unversioned_def)

text \<open>
  Claim C1, as the code has it.  When \<open>GenerateDependencies\<close> succeeds, no entry of the
  final Runtime list is, as a whole string, the unversioned name of an entry of the final
  Provides list: the Provides entries are cut at the first \<open>=\<close>, the Runtime entries are
  compared as they are written.  In particular, for declared Runtime \<open>[foo]\<close>, nothing
  discovered for Runtime and discovered Provides \<open>[foo=1.0]\<close>, the final Runtime list is
  empty.
\<close>

theorem C1_final_runtime_excludes_provided_names:
  assumes "keeps_entries env" and "fst (GenerateDependencies env pc w) = None"
  shows "(\<forall>r \<in> set (Runtime (finalDeps env pc w)).
            r \<notin> unversioned ` set (Provides (finalDeps env pc w)))
       \<and> (\<forall>generated. sca_Analyze env pc = Inr generated
             \<and> Runtime (Dependencies pc) = [''foo''] \<and> Runtime generated = []
             \<and> Provides generated = [''foo=1.0'']
            \<longrightarrow> Runtime (finalDeps env pc w) = [])"
proof -
  obtain generated where g: "sca_Analyze env pc = Inr generated"
    using assms(2) by (rule analysed)
  have rt: "set (Runtime (finalDeps env pc w)) =
     {r \<in> set (Runtime (Dependencies pc))
            \<union> {d \<in> set (Runtime generated). d \<notin> unversioned ` set (Vendored generated)}.
        r \<notin> unversioned ` (set (Provides (Dependencies pc)) \<union> set (Provides generated))}"
    by (rule final_Runtime_set [OF assms g])
  have pv: "set (Provides (finalDeps env pc w)) =
     set (Provides (Dependencies pc)) \<union> set (Provides generated)"
    by (rule final_Provides_set [OF assms g])
  have first: "\<forall>r \<in> set (Runtime (finalDeps env pc w)).
            r \<notin> unversioned ` set (Provides (finalDeps env pc w))"
    unfolding rt pv by blast
  have second: "Runtime (finalDeps env pc w) = []"
    if "Runtime (Dependencies pc) = [''foo'']" "Runtime generated = []"
       "Provides generated = [''foo=1.0'']"
  proof -
    have "set (Runtime (finalDeps env pc w)) = {}"
      unfolding rt using that by auto
    then show ?thesis by simp
  qed
  show ?thesis using first second g by auto
qed

theorem C1_witness:
  "keeps_entries env0 \<and> fst (GenerateDependencies env0 pc0 w0) = None
   \<and> Runtime (finalDeps env0 pc0 w0) = []
   \<and> fst (GenerateDependencies env0 pc_versioned w0) = None
   \<and> ''foo=1.0'' \<in> set (Runtime (finalDeps env0 pc_versioned w0))
   \<and> ''foo=1.0'' \<notin> unversioned ` set (Provides (finalDeps env0 pc_versioned w0))"
proof -
  let ?g = "\<lparr> Runtime = [], Provides = [''foo=1.0''], Replaces = [],
              ProviderPriority = 0, Vendored = [] \<rparr>"
  have h: "fst (GenerateDependencies env0 pc0 w0) = None"
    by (simp add: GenerateDependencies_result env0_def pc0_def build0_def)
  have s: "sca_Analyze env0 pc0 = Inr ?g"
    by (simp add: env0_def)
  have h2: "fst (GenerateDependencies env0 pc_versioned w0) = None"
    by (simp add: GenerateDependencies_result env0_def pc_versioned_def pc0_def build0_def)
  have s2: "sca_Analyze env0 pc_versioned = Inr ?g"
    by (simp add: env0_def)
  have m: "''foo=1.0'' \<in> set (Runtime (finalDeps env0 pc_versioned w0))"
    unfolding final_Runtime_set [OF keeps_entries_env0 h2 s2]
    by (simp add: pc_versioned_def pc0_def)
  have a: "Runtime (finalDeps env0 pc0 w0) = []"
    using C1_final_runtime_excludes_provided_names [OF keeps_entries_env0 h] s
    by (simp add: pc0_def)
  have b: "''foo=1.0'' \<notin> unversioned ` set (Provides (finalDeps env0 pc_versioned w0))"
    using C1_final_runtime_excludes_provided_names [OF keeps_entries_env0 h2] m by blast
  show ?thesis
    using keeps_entries_env0 h a h2 m b by (intro conjI)
qed

text \<open>
  The Runtime entries are not cut at \<open>=\<close>: a declared Runtime entry \<open>foo=1.0\<close> stays in the
  final Runtime list although its unversioned name \<open>foo\<close> is the unversioned name of the
  final Provides entry \<open>foo=1.0\<close>.
\<close>

theorem C1_counterexample:
  "fst (GenerateDependencies env0 pc_versioned w0) = None
   \<and> ''foo=1.0'' \<in> set (Runtime (finalDeps env0 pc_versioned w0))
   \<and> unversioned ''foo=1.0'' \<in> unversioned ` set (Provides (finalDeps env0 pc_versioned w0))"
proof -
  have h: "fst (GenerateDependencies env0 pc_versioned w0) = None"
    by (simp add: GenerateDependencies_result env0_def pc_versioned_def pc0_def build0_def)
  have s: "sca_Analyze env0 pc_versioned = Inr \<lparr> Runtime = [], Provides = [''foo=1.0''], Replaces = [],
                                  ProviderPriority = 0, Vendored = [] \<rparr>"
    by (simp add: env0_def)
  show ?thesis
    unfolding final_Runtime_set [OF keeps_entries_env0 h s] final_Provides_set [OF keeps_entries_env0 h s]
    using h by (simp add: pc_versioned_def pc0_def)
qed

text \<open>
  Claim C3, as the code has it.  The final Runtime entries are the declared entries
  together with the discovered entries that are not, as whole strings, the unversioned
  name of a discovered Vendored entry, less the entries that are the unversioned name of a
  declared or discovered Provides entry.  So only discovered entries meet the Vendored
  filter and declared entries pass it untouched: declared Runtime \<open>[]\<close> with discovered
  Runtime \<open>[libbar.so]\<close> and discovered Vendored \<open>[libbar.so=2.0]\<close> gives an empty final
  Runtime list, while a declared \<open>libbar.so\<close> stays (when nothing provides it).
\<close>

theorem C3_vendored_filter_only_on_discovered:
  assumes "keeps_entries env" and "fst (GenerateDependencies env pc w) = None"
    and "sca_Analyze env pc = Inr generated"
  shows "set (Runtime (finalDeps env pc w)) =
           {r \<in> set (Runtime (Dependencies pc))
                  \<union> {d \<in> set (Runtime generated). d \<notin> unversioned ` set (Vendored generated)}.
              r \<notin> unversioned ` (set (Provides (Dependencies pc)) \<union> set (Provides generated))}
       \<and> (Runtime (Dependencies pc) = [] \<and> Runtime generated = [''libbar.so'']
            \<and> Vendored generated = [''libbar.so=2.0'']
           \<longrightarrow> Runtime (finalDeps env pc w) = [])
       \<and> (Runtime (Dependencies pc) = [''libbar.so'']
            \<and> Vendored generated = [''libbar.so=2.0'']
            \<and> Provides (Dependencies pc) = [] \<and> Provides generated = []
           \<longrightarrow> ''libbar.so'' \<in> set (Runtime (finalDeps env pc w)))"
proof -
  have rt: "set (Runtime (finalDeps env pc w)) =
     {r \<in> set (Runtime (Dependencies pc))
            \<union> {d \<in> set (Runtime generated). d \<notin> unversioned ` set (Vendored generated)}.
        r \<notin> unversioned ` (set (Provides (Dependencies pc)) \<union> set (Provides generated))}"
    by (rule final_Runtime_set [OF assms])
  have a: "Runtime (finalDeps env pc w) = []"
    if "Runtime (Dependencies pc) = []" "Runtime generated = [''libbar.so'']"
       "Vendored generated = [''libbar.so=2.0'']"
  proof -
    have "set (Runtime (finalDeps env pc w)) = {}"
      unfolding rt using that by auto
    then show ?thesis by simp
  qed
  have b: "''libbar.so'' \<in> set (Runtime (finalDeps env pc w))"
    if "Runtime (Dependencies pc) = [''libbar.so'']" "Provides (Dependencies pc) = []"
       "Provides generated = []"
    unfolding rt using that by auto
  show ?thesis using rt a b by blast
qed

theorem C3_witness:
  "keeps_entries env_vendored \<and> fst (GenerateDependencies env_vendored pc_nodeps w0) = None
   \<and> sca_Analyze env_vendored pc_nodeps = Inr \<lparr> Runtime = [''libbar.so''], Provides = [],
       Replaces = [], ProviderPriority = 0, Vendored = [''libbar.so=2.0''] \<rparr>
   \<and> Runtime (finalDeps env_vendored pc_nodeps w0) = []
   \<and> ''libbar.so'' \<in> set (Runtime (finalDeps env_vendored
          (pc_nodeps\<lparr> Dependencies := (Dependencies pc_nodeps)\<lparr> Runtime := [''libbar.so''] \<rparr> \<rparr>) w0))"
proof -
  let ?g = "\<lparr> Runtime = [''libbar.so''], Provides = [],
       Replaces = [], ProviderPriority = 0, Vendored = [''libbar.so=2.0''] \<rparr>"
  let ?pc = "pc_nodeps\<lparr> Dependencies := (Dependencies pc_nodeps)\<lparr> Runtime := [''libbar.so''] \<rparr> \<rparr>"
  have k: "keeps_entries env_vendored"
    by (simp add: keeps_entries_def env_vendored_def env0_def)
  have h: "fst (GenerateDependencies env_vendored pc_nodeps w0) = None"
    by (simp add: GenerateDependencies_result env_vendored_def env0_def pc_nodeps_def pc0_def build0_def)
  have h2: "fst (GenerateDependencies env_vendored ?pc w0) = None"
    by (simp add: GenerateDependencies_result env_vendored_def env0_def pc_nodeps_def pc0_def build0_def)
  have s: "sca_Analyze env_vendored pc_nodeps = Inr ?g"
    by (simp add: env_vendored_def)
  have s2: "sca_Analyze env_vendored ?pc = Inr ?g"
    by (simp add: env_vendored_def)
  show ?thesis
    using C3_vendored_filter_only_on_discovered [OF k h s]
          C3_vendored_filter_only_on_discovered [OF k h2 s2] k h s
    by (simp add: pc_nodeps_def pc0_def)
qed

text \<open>
  A discovered Runtime entry \<open>libbar.so=2.0\<close> is kept although its unversioned name
  \<open>libbar.so\<close> is the unversioned name of the discovered Vendored entry \<open>libbar.so=2.0\<close>.
\<close>

theorem C3_counterexample:
  "unversioned ''libbar.so=2.0'' \<in> unversioned ` set [''libbar.so=2.0'']
   \<and> sca_Analyze env_vendored_versioned pc_nodeps = Inr \<lparr> Runtime = [''libbar.so=2.0''],
       Provides = [], Replaces = [], ProviderPriority = 0, Vendored = [''libbar.so=2.0''] \<rparr>
   \<and> fst (GenerateDependencies env_vendored_versioned pc_nodeps w0) = None
   \<and> Runtime (finalDeps env_vendored_versioned pc_nodeps w0) = [''libbar.so=2.0'']"
proof -
  have h: "fst (GenerateDependencies env_vendored_versioned pc_nodeps w0) = None"
    by (simp add: GenerateDependencies_result env_vendored_versioned_def env0_def pc_nodeps_def pc0_def build0_def)
  have s: "sca_Analyze env_vendored_versioned pc_nodeps = Inr \<lparr> Runtime = [''libbar.so=2.0''],
       Provides = [], Replaces = [], ProviderPriority = 0, Vendored = [''libbar.so=2.0''] \<rparr>"
    by (simp add: env_vendored_versioned_def)
  have "Runtime (finalDeps env_vendored_versioned pc_nodeps w0) = [''libbar.so=2.0'']"
    unfolding GenerateDependencies_deps [OF h s]
    by (simp add: removeSelfProvidedDeps_filter env_vendored_versioned_def env0_def pc_nodeps_def pc0_def)
  then show ?thesis using h s by simp
qed

lemma GenerateDependencies_warns:
  assumes "sca_Analyze env pc = Inr generated" and "DependencyLog (Build pc) \<noteq> []"
    and "os_Create env (dependencyLogPath pc) = Some err"
  shows "LogWarn (''Unable to open dependency log: '' @ error_msg err)
           \<in> set (trace (snd (snd (GenerateDependencies env pc w))))"
  using assms
  by (simp add: GenerateDependencies_def dependencyLogPath_def Let_def emit_def split: option.splits)

lemma EmitPackage_aborts_on_dependencies:
  assumes "os_MkdirAll env (WorkspaceSubdir env pc) = None"
    and "fst (GenerateDependencies env pc w1) = Some err"
  shows "fst (EmitPackage env pc w) = Some (Wrapf ''unable to build final dependencies set'' err)"
proof -
  let ?w2 = "emit (LogInfo (''generating package '' @ Identity pc)) (emit (MkdirAll (WorkspaceSubdir env pc) 493) w)"
  have "fst (GenerateDependencies env pc ?w2) = Some err"
    using assms(2) by (simp add: GenerateDependencies_result)
  then obtain pc1 w3 where "GenerateDependencies env pc ?w2 = (Some err, pc1, w3)"
    by (cases "GenerateDependencies env pc ?w2") auto
  then show ?thesis using assms(1) by (simp add: EmitPackage_def Let_def)
qed

text \<open>
  Claim C4, as the code has it.  \<open>GenerateDependencies\<close> returns the analyzer's error,
  wrapped, or else, when a dependency log is configured, whatever \<open>Encode\<close> returns for
  the log, or else success.  A failure to open the log is logged as a warning and the
  function goes on to \<open>Encode\<close>.  An error that \<open>GenerateDependencies\<close> returns makes
  \<open>EmitPackage\<close> fail with it.
\<close>

theorem C4_dependency_log_failures:
  "fst (GenerateDependencies env pc w) =
     (case sca_Analyze env pc of
        Inl err \<Rightarrow> Some (Wrapf ''analyzing package'' err)
      | Inr generated \<Rightarrow>
          (if DependencyLog (Build pc) \<noteq> []
           then json_Encode env (os_Create env (dependencyLogPath pc) = None) generated
           else None))
   \<and> (\<forall>generated err. sca_Analyze env pc = Inr generated \<and> DependencyLog (Build pc) \<noteq> []
         \<and> os_Create env (dependencyLogPath pc) = Some err
        \<longrightarrow> LogWarn (''Unable to open dependency log: '' @ error_msg err)
              \<in> set (trace (snd (snd (GenerateDependencies env pc w)))))
   \<and> (\<forall>err. os_MkdirAll env (WorkspaceSubdir env pc) = None
         \<and> fst (GenerateDependencies env pc w) = Some err
        \<longrightarrow> fst (EmitPackage env pc w) =
              Some (Wrapf ''unable to build final dependencies set'' err))"
  using GenerateDependencies_result [of env pc w] GenerateDependencies_warns [of env pc _ _ w]
    EmitPackage_aborts_on_dependencies [of env pc w _ w]
  by blast

theorem C4_witness:
  "sca_Analyze env_create_fails pc0 = Inr \<lparr> Runtime = [], Provides = [''foo=1.0''], Replaces = [],
                                  ProviderPriority = 0, Vendored = [] \<rparr>
   \<and> DependencyLog (Build pc0) \<noteq> []
   \<and> os_Create env_create_fails (dependencyLogPath pc0) = Some (Err ''permission denied'')
   \<and> os_MkdirAll env_create_fails (WorkspaceSubdir env_create_fails pc0) = None
   \<and> fst (GenerateDependencies env_create_fails pc0 w0) = Some (Err ''invalid argument'')
   \<and> LogWarn ''Unable to open dependency log: permission denied''
        \<in> set (trace (snd (snd (GenerateDependencies env_create_fails pc0 w0))))
   \<and> fst (EmitPackage env_create_fails pc0 w0) =
        Some (Wrapf ''unable to build final dependencies set'' (Err ''invalid argument''))"
  using C4_dependency_log_failures [of env_create_fails pc0 w0]
  by (simp add: env_create_fails_def env0_def pc0_def build0_def dependencyLogPath_def)

text \<open>
  The log is opened, writing the discovered result into it fails: \<open>GenerateDependencies\<close>
  returns the error and \<open>EmitPackage\<close> fails.
\<close>

theorem C4_counterexample:
  "DependencyLog (Build pc0) \<noteq> []
   \<and> os_Create env_encode_fails (dependencyLogPath pc0) = None
   \<and> fst (GenerateDependencies env_encode_fails pc0 w0) = Some (Err ''no space left on device'')
   \<and> fst (EmitPackage env_encode_fails pc0 w0) =
        Some (Wrapf ''unable to build final dependencies set'' (Err ''no space left on device''))"
proof -
  have g: "fst (GenerateDependencies env_encode_fails pc0 w0) = Some (Err ''no space left on device'')"
    by (simp add: GenerateDependencies_result env_encode_fails_def env0_def pc0_def build0_def)
  have m: "os_MkdirAll env_encode_fails (WorkspaceSubdir env_encode_fails pc0) = None"
    by (simp add: env_encode_fails_def env0_def)
  show ?thesis
    using g EmitPackage_aborts_on_dependencies [OF m g, of w0]
    by (simp add: env_encode_fails_def env0_def pc0_def build0_def)
qed

subsection \<open>The build log\<close>

lemma digit_char_not_newline:
  assumes "d < 10"
  shows "digit_char d \<noteq> newline"
proof
  assume "digit_char d = newline"
  then have "(of_char (digit_char d) :: nat) = of_char newline" by simp
  then have "(48 + d) mod 256 = (10 :: nat)"
    by (simp add: digit_char_def newline_def)
  with assms show False by simp
qed

lemma newline_notin_fmt_nat: "newline \<notin> set (fmt_nat n)"
proof (induction n rule: fmt_nat.induct)
  case (1 n)
  show ?case
  proof (cases "n < 10")
    case True
    then show ?thesis
      using digit_char_not_newline [of n] by (subst fmt_nat.simps) auto
  next
    case False
    have "n mod 10 < 10" by simp
    then have "digit_char (n mod 10) \<noteq> newline" by (rule digit_char_not_newline)
    with False 1 show ?thesis by (subst fmt_nat.simps) auto
  qed
qed

lemma buildLogLine_single_line:
  assumes "newline \<notin> set (Arch pc @ OriginName pc @ PackageName pc @ Version (Origin pc))"
  shows "last (buildLogLine pc) = newline \<and> newline \<notin> set (butlast (buildLogLine pc))"
proof -
  have nl: "newline \<noteq> CHR ''|''" "newline \<noteq> CHR ''-''" "newline \<noteq> CHR ''r''"
    by (simp_all add: newline_def)
  let ?body = "Arch pc @ ''|'' @ OriginName pc @ ''|'' @ PackageName pc @ ''|''
     @ Version (Origin pc) @ ''-r'' @ fmt_nat (Epoch (Origin pc))"
  have eq: "buildLogLine pc = ?body @ [newline]" by (simp add: buildLogLine_def)
  have "newline \<notin> set ?body"
    using assms nl newline_notin_fmt_nat [of "Epoch (Origin pc)"] by auto
  then show ?thesis unfolding eq by (simp only: last_snoc butlast_snoc) simp
qed

text \<open>
  Claim C10, as the code has it.  With build logging disabled \<open>AppendBuildLog\<close> returns
  success and leaves the world as it is: no file is opened, created or written.  With
  build logging enabled it opens \<open>packages.log\<close> in the given directory for appending; if
  the open fails it returns that error and writes nothing; if the open succeeds it makes
  exactly one write call, with the line \<open>arch|origin|name|version-rEpoch\<close> and a final
  newline, returns what that call returns, and closes the file.  The line holds no other
  newline when the four strings hold none.
\<close>

theorem C10_AppendBuildLog_effects:
  "(\<not> CreateBuildLog (Build pc) \<longrightarrow> AppendBuildLog env pc dir w = (None, w))
   \<and> (CreateBuildLog (Build pc) \<and> os_OpenFile env (filepath_Join env [dir, ''packages.log'']) = None
        \<longrightarrow> AppendBuildLog env pc dir w =
              (file_WriteString env (filepath_Join env [dir, ''packages.log'']) (buildLogLine pc),
               w\<lparr> trace := trace w @
                     [OpenFile (filepath_Join env [dir, ''packages.log''])
                        [O_APPEND, O_CREATE, O_WRONLY] 420,
                      WriteString (filepath_Join env [dir, ''packages.log'']) (buildLogLine pc),
                      Close (filepath_Join env [dir, ''packages.log''])] \<rparr>))
   \<and> (\<forall>err. CreateBuildLog (Build pc)
          \<and> os_OpenFile env (filepath_Join env [dir, ''packages.log'']) = Some err
        \<longrightarrow> AppendBuildLog env pc dir w =
              (Some err,
               w\<lparr> trace := trace w @
                     [OpenFile (filepath_Join env [dir, ''packages.log''])
                        [O_APPEND, O_CREATE, O_WRONLY] 420] \<rparr>))
   \<and> (newline \<notin> set (Arch pc @ OriginName pc @ PackageName pc @ Version (Origin pc))
        \<longrightarrow> last (buildLogLine pc) = newline \<and> newline \<notin> set (butlast (buildLogLine pc)))"
  using buildLogLine_single_line [of pc]
  by (simp add: AppendBuildLog_def Let_def emit_def)

theorem C10_witness:
  "\<not> CreateBuildLog (Build pc_nolog) \<and> AppendBuildLog env0 pc_nolog [] w0 = (None, w0)
   \<and> CreateBuildLog (Build pc0) \<and> os_OpenFile env0 (filepath_Join env0 [[], ''packages.log'']) = None
   \<and> fst (AppendBuildLog env0 pc0 [] w0) = None
   \<and> trace (snd (AppendBuildLog env0 pc0 [] w0)) =
        [OpenFile ''packages.log'' [O_APPEND, O_CREATE, O_WRONLY] 420,
         WriteString ''packages.log'' (buildLogLine pc0), Close ''packages.log'']
   \<and> os_OpenFile env_open_fails (filepath_Join env_open_fails [[], ''packages.log''])
        = Some (Err ''permission denied'')
   \<and> fst (AppendBuildLog env_open_fails pc0 [] w0) = Some (Err ''permission denied'')
   \<and> newline \<notin> set (Arch pc0 @ OriginName pc0 @ PackageName pc0 @ Version (Origin pc0))
   \<and> last (buildLogLine pc0) = newline \<and> newline \<notin> set (butlast (buildLogLine pc0))"
proof -
  have n: "newline \<notin> set (Arch pc0 @ OriginName pc0 @ PackageName pc0 @ Version (Origin pc0))"
    by (simp add: pc0_def newline_def)
  show ?thesis
    using C10_AppendBuildLog_effects [of pc_nolog env0 "[]" w0]
      C10_AppendBuildLog_effects [of pc0 env0 "[]" w0]
      C10_AppendBuildLog_effects [of pc0 env_open_fails "[]" w0] n
    by (simp add: pc_nolog_def pc0_def build0_def env0_def env_open_fails_def w0_def)
qed

text \<open>
  Build logging is enabled and the log cannot be opened: the call returns the error and
  the only call made is the open; there is no write call.
\<close>

theorem C10_counterexample:
  "CreateBuildLog (Build pc0)
   \<and> fst (AppendBuildLog env_open_fails pc0 [] w0) = Some (Err ''permission denied'')
   \<and> trace (snd (AppendBuildLog env_open_fails pc0 [] w0)) =
        [OpenFile ''packages.log'' [O_APPEND, O_CREATE, O_WRONLY] 420]"
  by (simp add: AppendBuildLog_def Let_def emit_def pc0_def build0_def env0_def
        env_open_fails_def w0_def)

subsection \<open>Installed size\<close>

lemma installedSizeFn_ok:
  "installedSizeFn d err pc = (None, pc1) \<Longrightarrow>
     err = None \<and> (\<exists>fi. d = Inr fi \<and> pc1 = pc\<lparr> InstalledSize := InstalledSize pc + Size fi \<rparr>)"
  by (auto simp add: installedSizeFn_def split: option.splits sum.splits)

lemma walk_installed_size:
  "walkDir installedSizeFn t pc = (None, pc1) \<Longrightarrow>
     pc1 = pc\<lparr> InstalledSize := InstalledSize pc + all_sizes t \<rparr>"
  "walkDirs installedSizeFn ts pc = (None, pc1) \<Longrightarrow>
     pc1 = pc\<lparr> InstalledSize := InstalledSize pc + all_sizes_list ts \<rparr>"
proof (induction t and ts arbitrary: pc pc1 and pc pc1 rule: all_sizes_all_sizes_list.induct)
  case (1 name info)
  then show ?case by (auto dest!: installedSizeFn_ok)
next
  case (2 name info rerr entries)
  from "2.prems" obtain s1 where a: "installedSizeFn info None pc = (None, s1)"
    by (auto split: prod.splits option.splits)
  from "2.prems" a have r: "rerr = None"
    by (cases rerr) (auto split: prod.splits option.splits dest!: installedSizeFn_ok)
  from "2.prems" a r have w: "walkDirs installedSizeFn entries s1 = (None, pc1)"
    by simp
  from a obtain fi where fi: "info = Inr fi" "s1 = pc\<lparr> InstalledSize := InstalledSize pc + Size fi \<rparr>"
    by (auto dest!: installedSizeFn_ok)
  have "pc1 = s1\<lparr> InstalledSize := InstalledSize s1 + all_sizes_list entries \<rparr>"
    using "2.IH" [OF w] .
  then show ?case using fi by (simp add: add.assoc)
next
  case 3
  then show ?case by simp
next
  case (4 d ds)
  from "4.prems" obtain s1 where a: "walkDir installedSizeFn d pc = (None, s1)"
    and b: "walkDirs installedSizeFn ds s1 = (None, pc1)"
    by (auto split: prod.splits option.splits)
  have "s1 = pc\<lparr> InstalledSize := InstalledSize pc + all_sizes d \<rparr>"
    using "4.IH"(1) [OF a] .
  moreover have "pc1 = s1\<lparr> InstalledSize := InstalledSize s1 + all_sizes_list ds \<rparr>"
    using "4.IH"(2) [OF b] .
  ultimately show ?case by (simp add: add.assoc)
qed

lemma sizes_split:
  "all_sizes t = regular_sizes t + other_sizes t"
  "all_sizes_list ts = regular_sizes_list ts + other_sizes_list ts"
  by (induction t and ts rule: all_sizes_all_sizes_list.induct) (simp_all add: algebra_simps)

lemma calculateInstalledSize_ok:
  assumes "fst (calculateInstalledSize pc fsys) = None"
  shows "snd (calculateInstalledSize pc fsys) = pc\<lparr> InstalledSize := InstalledSize pc + all_sizes fsys \<rparr>"
proof -
  obtain r pc1 where w: "fs_WalkDir fsys installedSizeFn pc = (r, pc1)"
    by (cases "fs_WalkDir fsys installedSizeFn pc") auto
  with assms have r: "r = None"
    by (cases r) (auto simp add: calculateInstalledSize_def)
  have "walkDir installedSizeFn fsys pc = (None, pc1)"
    using w r by (auto simp add: fs_WalkDir_def installedSizeFn_def split: sum.splits)
  then have "pc1 = pc\<lparr> InstalledSize := InstalledSize pc + all_sizes fsys \<rparr>"
    by (rule walk_installed_size(1))
  then show ?thesis using w r by (simp add: calculateInstalledSize_def)
qed

text \<open>
  Claim C5, as the code has it.  When the walk succeeds, \<open>calculateInstalledSize\<close> adds to
  \<open>InstalledSize\<close> (in 64-bit arithmetic) the sum of \<open>Size()\<close> over every entry of the
  staged tree, that is the sizes of the regular files plus the sizes the file system
  reports for the root, the directories, the symlinks and the other non-regular entries;
  nothing else is changed and nothing of an archive or a compressor enters the sum.
\<close>

theorem C5_installed_size_sums_every_entry:
  assumes "fst (calculateInstalledSize pc fsys) = None"
  shows "snd (calculateInstalledSize pc fsys) =
           pc\<lparr> InstalledSize := InstalledSize pc + all_sizes fsys \<rparr>
       \<and> all_sizes fsys = regular_sizes fsys + other_sizes fsys"
  using calculateInstalledSize_ok [OF assms] sizes_split(1) [of fsys] by simp

lemma calc_tree_symlink:
  "calculateInstalledSize pc0 tree_symlink = (None, pc0\<lparr> InstalledSize := 17 \<rparr>)"
  by (simp add: calculateInstalledSize_def fs_WalkDir_def tree_symlink_def installedSizeFn_def pc0_def)

theorem C5_witness:
  "fst (calculateInstalledSize pc0 tree_symlink) = None
   \<and> InstalledSize (snd (calculateInstalledSize pc0 tree_symlink)) = 17
   \<and> all_sizes tree_symlink = 17 \<and> regular_sizes tree_symlink = 10
   \<and> other_sizes tree_symlink = 7"
proof -
  have h: "fst (calculateInstalledSize pc0 tree_symlink) = None"
    by (simp add: calc_tree_symlink)
  show ?thesis
    using C5_installed_size_sums_every_entry [OF h] h
    by (simp add: calc_tree_symlink tree_symlink_def pc0_def)
qed

text \<open>
  A staged tree with one regular file of 10 bytes in a directory whose own size is 4096:
  the regular files sum to 10, the installed size is 4106.
\<close>

theorem C5_counterexample:
  "fst (calculateInstalledSize pc0 tree0) = None
   \<and> InstalledSize pc0 = 0
   \<and> regular_sizes tree0 = 10
   \<and> InstalledSize (snd (calculateInstalledSize pc0 tree0)) = 4106"
  by (simp add: calculateInstalledSize_def fs_WalkDir_def tree0_def installedSizeFn_def pc0_def)

subsection \<open>Compressor settings\<close>

lemma min_go_min: "min_go l r = min l r"
  by (simp add: min_go_def min_def)

lemma emitDataSection_trace:
  assumes "tarball_NewContext env (dataTarctx pc ru rg) = None"
  shows "\<exists>rest. trace (snd (snd (snd (emitDataSection env pc fsys userinfofs ru rg f w)))) =
           trace w @ SetConcurrency 1048576 (min (GOMAXPROCS env) 8) # rest
         \<and> (\<forall>b n. SetConcurrency b n \<notin> set rest)"
  using assms
  by (auto simp add: emitDataSection_def Let_def emit_def pgzipThreads_def min_go_min
      split: option.splits prod.splits)

text \<open>
  Claim C9.  The thread count \<open>pgzipThreads\<close> is the minimum of \<open>GOMAXPROCS(0)\<close> and 8; it
  is a value of the process, not of a call.  Whenever \<open>emitDataSection\<close> gets its archive
  context it calls \<open>SetConcurrency\<close> exactly once, with the block size \<open>2^20 = 1048576\<close>
  and that thread count, and the blocks of the data section are those the compressor
  produces under these two settings.
\<close>

theorem C9_pgzip_concurrency:
  "pgzipThreads env = min (GOMAXPROCS env) 8
   \<and> pgzipThreads env \<le> 8
   \<and> (tarball_NewContext env (dataTarctx pc ru rg) = None \<longrightarrow>
        (\<exists>rest. trace (snd (snd (snd (emitDataSection env pc fsys userinfofs ru rg f w)))) =
                   trace w @ SetConcurrency 1048576 (min (GOMAXPROCS env) 8) # rest
                \<and> (\<forall>b n. SetConcurrency b n \<notin> set rest)))
   \<and> dataBlocks env tar =
        pgzip_Write env 1048576 (min (GOMAXPROCS env) 8) tar
        @ pgzip_Close env 1048576 (min (GOMAXPROCS env) 8) tar"
  using emitDataSection_trace [of env pc ru rg fsys userinfofs f w]
  by (simp add: pgzipThreads_def min_go_min dataBlocks_def)

theorem C9_witness:
  "tarball_NewContext env0 (dataTarctx pc0 (remapUIDs pc0) (remapGIDs pc0)) = None
   \<and> pgzipThreads env0 = 4
   \<and> (\<exists>rest. trace (snd (snd (snd (emitDataSection env0 pc0 (DiskFS tree0) (DiskFS tree0)
            (remapUIDs pc0) (remapGIDs pc0) \<lparr> f_name = ''t'', f_content = [], f_pos = 0 \<rparr> w0)))) =
          trace w0 @ SetConcurrency 1048576 4 # rest
          \<and> (\<forall>b n. SetConcurrency b n \<notin> set rest))"
  using C9_pgzip_concurrency [of env0 pc0 "remapUIDs pc0" "remapGIDs pc0" "DiskFS tree0" "DiskFS tree0"
     "\<lparr> f_name = ''t'', f_content = [], f_pos = 0 \<rparr>" w0 "[]"]
  by (simp add: env0_def)

subsection \<open>Ownership remap and the emitted package\<close>

lemma fold_last_match:
  "fold (\<lambda>x b. if P x then x else b) xs b0 =
     (if filter P xs = [] then b0 else last (filter P xs))"
  by (induction xs arbitrary: b0) auto

lemma buildUser_last:
  "buildUser users =
     (if filter (\<lambda>u. UserName u = ''build'') users = [] then \<lparr> UserName = [], UID = 0 \<rparr>
      else last (filter (\<lambda>u. UserName u = ''build'') users))"
  unfolding buildUser_def by (rule fold_last_match)

lemma buildGroup_last:
  "buildGroup groups =
     (if filter (\<lambda>g. GroupName g = ''build'') groups = [] then \<lparr> GroupName = [], GID = 0 \<rparr>
      else last (filter (\<lambda>g. GroupName g = ''build'') groups))"
  unfolding buildGroup_def by (rule fold_last_match)

lemma remapUIDs_eq:
  "remapUIDs pc =
     (if filter (\<lambda>u. UserName u = ''build'') (Users (Build pc)) = [] then [0 \<mapsto> 0]
      else [int (UID (last (filter (\<lambda>u. UserName u = ''build'') (Users (Build pc))))) \<mapsto> 0])"
  by (simp add: remapUIDs_def buildUser_last)

lemma remapGIDs_eq:
  "remapGIDs pc =
     (if filter (\<lambda>g. GroupName g = ''build'') (Groups (Build pc)) = [] then [0 \<mapsto> 0]
      else [int (GID (last (filter (\<lambda>g. GroupName g = ''build'') (Groups (Build pc))))) \<mapsto> 0])"
  by (simp add: remapGIDs_def buildGroup_last)

lemma data_owner:
  "tarball_uid (dataTarctx pc (remapUIDs pc) (remapGIDs pc)) uid =
     (if uid = int (UID (buildUser (Users (Build pc)))) then 0 else uid)"
  "tarball_gid (dataTarctx pc (remapUIDs pc) (remapGIDs pc)) gid =
     (if gid = int (GID (buildGroup (Groups (Build pc)))) then 0 else gid)"
  by (simp_all add: tarball_uid_def tarball_gid_def dataTarctx_def default_tarctx_def
        remapUIDs_def remapGIDs_def)

lemma control_no_remap:
  "WithRemapUIDs (controlTarctx pc) = Map.empty \<and> WithRemapGIDs (controlTarctx pc) = Map.empty
   \<and> WithOverrideUIDGID (controlTarctx pc) = Some (0, 0)"
  by (simp add: controlTarctx_def default_tarctx_def)

lemma put_at_end: "put_at (length content) p content = content @ p"
  by (simp add: put_at_def)

lemma wfile_Write_ok:
  assumes "wfile_Write env p f = (None, f1)"
  shows "f1 = f\<lparr> f_content := put_at (f_pos f) p (f_content f), f_pos := f_pos f + length p \<rparr>"
  using assms by (auto simp add: wfile_Write_def split: option.splits)

lemma write_blocks_ok:
  "write_blocks env ps (dg, f) = (None, (dg1, f1)) \<Longrightarrow>
     dg1 = dg @ concat ps \<and> f_name f1 = f_name f
     \<and> (f_pos f = length (f_content f) \<longrightarrow>
          f_content f1 = f_content f @ concat ps \<and> f_pos f1 = length (f_content f1))"
proof (induction ps arbitrary: dg f)
  case Nil
  then show ?case by simp
next
  case (Cons p ps)
  from Cons.prems obtain f2 where a: "wfile_Write env p f = (None, f2)"
    and b: "write_blocks env ps (dg @ p, f2) = (None, (dg1, f1))"
    by (auto simp add: MultiWriter_Write_def split: prod.splits option.splits)
  have f2: "f2 = f\<lparr> f_content := put_at (f_pos f) p (f_content f), f_pos := f_pos f + length p \<rparr>"
    using a by (rule wfile_Write_ok)
  from Cons.IH [OF b] f2 show ?case by (auto simp add: put_at_end)
qed

lemma emitDataSection_ok:
  assumes "emitDataSection env pc fsys userinfofs ru rg f w = (None, pc1, f1, w1)"
  shows "pc1 = pc\<lparr> DataHash := hex_EncodeToString (sha256_Sum env
                    (concat (dataBlocks env (fst (tarball_WriteTar env (dataTarctx pc ru rg) fsys userinfofs))))) \<rparr>
       \<and> files w1 = files w
       \<and> (f_pos f = length (f_content f) \<longrightarrow>
            f_content f1 = f_content f
               @ concat (dataBlocks env (fst (tarball_WriteTar env (dataTarctx pc ru rg) fsys userinfofs)))
            \<and> f_pos f1 = 0)"
proof -
  let ?ctx = "dataTarctx pc ru rg"
  let ?n = "pgzipThreads env"
  obtain tar terr where t: "tarball_WriteTar env ?ctx fsys userinfofs = (tar, terr)"
    by (cases "tarball_WriteTar env ?ctx fsys userinfofs") auto
  from assms have c: "tarball_NewContext env ?ctx = None"
    by (cases "tarball_NewContext env ?ctx") (auto simp add: emitDataSection_def Let_def)
  from assms c have sc: "pgzip_SetConcurrency env (2 ^ 20) ?n = None"
    by (cases "pgzip_SetConcurrency env (2 ^ 20) ?n") (auto simp add: emitDataSection_def Let_def)
  obtain r1 dg1 f2 where b1: "write_blocks env (pgzip_Write env (2 ^ 20) ?n tar) ([], f) = (r1, (dg1, f2))"
    by (cases "write_blocks env (pgzip_Write env (2 ^ 20) ?n tar) ([], f)") auto
  from assms c sc t b1 have r1: "r1 = None"
    by (cases r1) (auto simp add: emitDataSection_def Let_def)
  from assms c sc t b1 r1 have te: "terr = None"
    by (cases terr) (auto simp add: emitDataSection_def Let_def)
  obtain r2 dg2 f3 where b2: "write_blocks env (pgzip_Close env (2 ^ 20) ?n tar) (dg1, f2) = (r2, (dg2, f3))"
    by (cases "write_blocks env (pgzip_Close env (2 ^ 20) ?n tar) (dg1, f2)") auto
  from assms c sc t b1 r1 te b2 have r2: "r2 = None"
    by (cases r2) (auto simp add: emitDataSection_def Let_def)
  from assms c sc t b1 r1 te b2 r2 have sk: "file_Seek env (f_name f3) = None"
    by (cases "file_Seek env (f_name f3)") (auto simp add: emitDataSection_def Let_def)
  from assms c sc t b1 r1 te b2 r2 sk
  have res: "pc1 = pc\<lparr> DataHash := hex_EncodeToString (sha256_Sum env dg2) \<rparr>"
    "f1 = f3\<lparr> f_pos := 0 \<rparr>" "files w1 = files w"
    by (auto simp add: emitDataSection_def Let_def emit_def)
  note k1 = write_blocks_ok [OF b1 [unfolded r1]]
  note k2 = write_blocks_ok [OF b2 [unfolded r2]]
  have dg: "dg2 = concat (dataBlocks env tar)"
    using k1 k2 by (simp add: dataBlocks_def)
  have ct: "f_content f3 = f_content f @ concat (dataBlocks env tar)"
    if "f_pos f = length (f_content f)"
    using k1 k2 that by (simp add: dataBlocks_def)
  show ?thesis using res dg ct t by simp
qed

lemma combine_ok:
  "combine env out ps w = (None, w1) \<Longrightarrow> files w out = Some old \<Longrightarrow>
     files w1 out = Some (old @ concat ps)"
proof (induction ps arbitrary: w old)
  case Nil
  then show ?case by simp
next
  case (Cons p ps)
  from Cons.prems(1) have c: "io_Copy env out p = None"
    and r: "combine env out ps (append_file out p w) = (None, w1)"
    by (auto split: option.splits prod.splits)
  have "files (append_file out p w) out = Some (old @ p)"
    using Cons.prems(2) by (simp add: append_file_def)
  from Cons.IH [OF r this] show ?case by simp
qed

lemma AppendBuildLog_files: "files (snd (AppendBuildLog env pc dir w)) = files w"
  by (simp add: AppendBuildLog_def Let_def emit_def split: option.splits)

lemma EmitPackage_outFile_ok:
  assumes "EmitPackage_outFile env pc parts w = (None, w1)"
    and "files w (Filename pc) = Some old"
  shows "files w1 (Filename pc) = Some (old @ concat parts)"
proof -
  obtain r w2 where c: "combine env (Filename pc) parts w = (r, w2)"
    by (cases "combine env (Filename pc) parts w") auto
  with assms(1) have r: "r = None"
    by (cases r) (auto simp add: EmitPackage_outFile_def)
  have f2: "files w2 (Filename pc) = Some (old @ concat parts)"
    using combine_ok [OF c [unfolded r] assms(2)] .
  let ?w3 = "emit (LogInfo (''wrote '' @ Filename pc)) w2"
  have "files w1 = files (snd (AppendBuildLog env pc [] ?w3))"
    using assms(1) c r
    by (cases "AppendBuildLog env pc [] ?w3")
       (auto simp add: EmitPackage_outFile_def Let_def emit_def split: option.splits)
  then show ?thesis using f2 by (simp add: AppendBuildLog_files emit_def)
qed

lemma DataHash_update_frame [simp]:
  "Filename (pc\<lparr> DataHash := h \<rparr>) = Filename pc"
  "wantSignature (pc\<lparr> DataHash := h \<rparr>) = wantSignature pc"
  "Signer (pc\<lparr> DataHash := h \<rparr>) = Signer pc"
  by (simp_all add: Filename_def Identity_def wantSignature_def Signer_def)

lemma EmitPackage_dataTarGz_ok:
  assumes "EmitPackage_dataTarGz env pc fsys userinfofs tmp w = (None, pc1, w1)"
  shows "pc1 = pc\<lparr> DataHash := hex_EncodeToString (sha256_Sum env
                    (concat (dataBlocks env (fst (tarball_WriteTar env
                       (dataTarctx pc (remapUIDs pc) (remapGIDs pc)) (DiskFS fsys) (DiskFS userinfofs)))))) \<rparr>
       \<and> (\<exists>ctrl. generateControlSection env pc1 = Inr ctrl
            \<and> (if wantSignature pc
                then \<exists>sig. EmitSignature env (Signer pc) ctrl (SourceDateEpoch (Build pc)) = Inr sig
                       \<and> files w1 (Filename pc) = Some (sig @ ctrl
                            @ concat (dataBlocks env (fst (tarball_WriteTar env
                                (dataTarctx pc (remapUIDs pc) (remapGIDs pc)) (DiskFS fsys) (DiskFS userinfofs)))))
                else files w1 (Filename pc) = Some (ctrl
                            @ concat (dataBlocks env (fst (tarball_WriteTar env
                                (dataTarctx pc (remapUIDs pc) (remapGIDs pc)) (DiskFS fsys) (DiskFS userinfofs)))))))"
proof -
  let ?f = "\<lparr> f_name = tmp, f_content = [], f_pos = 0 \<rparr>"
  let ?data = "concat (dataBlocks env (fst (tarball_WriteTar env
                 (dataTarctx pc (remapUIDs pc) (remapGIDs pc)) (DiskFS fsys) (DiskFS userinfofs))))"
  obtain r p2 f2 w2 where e: "emitDataSection env pc (DiskFS fsys) (DiskFS userinfofs) (remapUIDs pc) (remapGIDs pc) ?f w = (r, p2, f2, w2)"
    by (cases "emitDataSection env pc (DiskFS fsys) (DiskFS userinfofs) (remapUIDs pc) (remapGIDs pc) ?f w") auto
  with assms have r: "r = None"
    by (cases r) (auto simp add: EmitPackage_dataTarGz_def)
  note k = emitDataSection_ok [OF e [unfolded r]]
  have p2: "p2 = pc\<lparr> DataHash := hex_EncodeToString (sha256_Sum env ?data) \<rparr>"
    and f2: "f_content f2 = ?data" "f_pos f2 = 0"
    using k by simp_all
  obtain ctrl where g: "generateControlSection env p2 = Inr ctrl"
    using assms e r by (cases "generateControlSection env p2") (auto simp add: EmitPackage_dataTarGz_def)
  let ?parts = "[ctrl, drop (f_pos f2) (f_content f2)]"
  have d: "drop (f_pos f2) (f_content f2) = ?data" using f2 by simp
  let ?sel = "(if wantSignature p2
               then (case EmitSignature env (Signer p2) ctrl (SourceDateEpoch (Build p2)) of
                       Inl err \<Rightarrow> Inl (Wrapf ''emitting signature'' err)
                     | Inr signatureData \<Rightarrow> Inr ([signatureData] @ ?parts))
               else Inr ?parts)"
  obtain parts where s: "?sel = Inr parts"
    using assms e r g by (cases ?sel) (auto simp add: EmitPackage_dataTarGz_def Let_def)
  have m: "os_MkdirAll env (OutDir p2) = None"
    using assms e r g s by (cases "os_MkdirAll env (OutDir p2)") (auto simp add: EmitPackage_dataTarGz_def Let_def)
  have c: "os_Create env (Filename p2) = None"
    using assms e r g s m by (cases "os_Create env (Filename p2)") (auto simp add: EmitPackage_dataTarGz_def Let_def)
  let ?w3 = "emit (Create (Filename p2)) (emit (MkdirAll (OutDir p2) 493) w2)"
  let ?w4 = "?w3\<lparr> files := (files ?w3)(Filename p2 \<mapsto> []) \<rparr>"
  obtain r5 w5 where o: "EmitPackage_outFile env p2 parts ?w4 = (r5, w5)"
    by (cases "EmitPackage_outFile env p2 parts ?w4") auto
  have fin: "r5 = None" "pc1 = p2" "w1 = emit (Close (Filename p2)) w5"
    using assms e r g s m c o by (auto simp add: EmitPackage_dataTarGz_def Let_def)
  have "files ?w4 (Filename p2) = Some []" by simp
  from EmitPackage_outFile_ok [OF o [unfolded fin(1)] this]
  have fl: "files w1 (Filename pc) = Some (concat parts)"
    using fin p2 by (simp add: emit_def)
  show ?thesis
  proof (cases "wantSignature pc")
    case True
    with s p2 d obtain sig where "EmitSignature env (Signer pc) ctrl (SourceDateEpoch (Build pc)) = Inr sig"
      and "parts = [sig, ctrl, ?data]"
      by (cases "EmitSignature env (Signer pc) ctrl (SourceDateEpoch (Build pc))") auto
    with True fl fin p2 g show ?thesis by auto
  next
    case False
    with s p2 d have "parts = [ctrl, ?data]" by simp
    with False fl fin p2 g show ?thesis by auto
  qed
qed

lemma GenerateDependencies_frame:
  "\<exists>d. fst (snd (GenerateDependencies env pc w)) = pc\<lparr> Dependencies := d \<rparr>"
proof (cases "sca_Analyze env pc")
  case (Inl err)
  then have "fst (snd (GenerateDependencies env pc w)) = pc\<lparr> Dependencies := Dependencies pc \<rparr>"
    by (simp add: GenerateDependencies_def)
  then show ?thesis ..
next
  case (Inr generated)
  let ?enc = "if DependencyLog (Build pc) \<noteq> []
              then json_Encode env (os_Create env (DependencyLog (Build pc) @ ''.'' @ Arch pc) = None) generated
              else None"
  show ?thesis
  proof (cases ?enc)
    case None
    have "fst (snd (GenerateDependencies env pc w)) = pc\<lparr> Dependencies := finalDeps env pc w \<rparr>"
      unfolding finalDeps_def GenerateDependencies_def Let_def Inr sum.case None option.case
      by simp
    then show ?thesis ..
  next
    case (Some err)
    have "fst (snd (GenerateDependencies env pc w)) = pc\<lparr> Dependencies := Dependencies pc \<rparr>"
      unfolding GenerateDependencies_def Let_def Inr sum.case Some option.case
      by simp
    then show ?thesis ..
  qed
qed

lemma frame_simps [simp]:
  "Filename (pc\<lparr> Dependencies := d \<rparr>) = Filename pc"
  "Filename (pc\<lparr> InstalledSize := n \<rparr>) = Filename pc"
  "wantSignature (pc\<lparr> Dependencies := d \<rparr>) = wantSignature pc"
  "wantSignature (pc\<lparr> InstalledSize := n \<rparr>) = wantSignature pc"
  "Signer (pc\<lparr> Dependencies := d \<rparr>) = Signer pc"
  "Signer (pc\<lparr> InstalledSize := n \<rparr>) = Signer pc"
  "remapUIDs (pc\<lparr> Dependencies := d \<rparr>) = remapUIDs pc"
  "remapUIDs (pc\<lparr> InstalledSize := n \<rparr>) = remapUIDs pc"
  "remapGIDs (pc\<lparr> Dependencies := d \<rparr>) = remapGIDs pc"
  "remapGIDs (pc\<lparr> InstalledSize := n \<rparr>) = remapGIDs pc"
  "dataTarctx (pc\<lparr> Dependencies := d \<rparr>) = dataTarctx pc"
  "dataTarctx (pc\<lparr> InstalledSize := n \<rparr>) = dataTarctx pc"
  by (simp_all add: Filename_def Identity_def wantSignature_def Signer_def remapUIDs_def
        remapGIDs_def dataTarctx_def fun_eq_iff)

lemma EmitPackage_ok:
  assumes "fst (EmitPackage env pc w) = None"
  shows "DataHash (fst (snd (EmitPackage env pc w)))
           = hex_EncodeToString (sha256_Sum env (dataSection env pc))
       \<and> (\<exists>ctrl. generateControlSection env (fst (snd (EmitPackage env pc w))) = Inr ctrl
            \<and> (if wantSignature pc
                then \<exists>sig. EmitSignature env (Signer pc) ctrl (SourceDateEpoch (Build pc)) = Inr sig
                       \<and> files (snd (snd (EmitPackage env pc w))) (Filename pc)
                           = Some (sig @ ctrl @ dataSection env pc)
                else files (snd (snd (EmitPackage env pc w))) (Filename pc)
                           = Some (ctrl @ dataSection env pc)))"
proof -
  let ?ws = "WorkspaceSubdir env pc"
  let ?w2 = "emit (LogInfo (''generating package '' @ Identity pc)) (emit (MkdirAll ?ws 493) w)"
  let ?fsys = "readlinkFS env ?ws"
  let ?u = "os_DirFS env (GuestDir (Build pc))"
  have m: "os_MkdirAll env ?ws = None"
    using assms by (cases "os_MkdirAll env ?ws") (auto simp add: EmitPackage_def Let_def)
  obtain r1 p1 w3 where g: "GenerateDependencies env pc ?w2 = (r1, p1, w3)"
    by (cases "GenerateDependencies env pc ?w2") auto
  have r1: "r1 = None"
    using assms m g by (cases r1) (auto simp add: EmitPackage_def Let_def)
  obtain d where p1: "p1 = pc\<lparr> Dependencies := d \<rparr>"
    using GenerateDependencies_frame [of env pc ?w2] g by auto
  obtain r2 p2 where c: "calculateInstalledSize p1 ?fsys = (r2, p2)"
    by (cases "calculateInstalledSize p1 ?fsys") auto
  have r2: "r2 = None"
    using assms m g r1 c by (cases r2) (auto simp add: EmitPackage_def Let_def)
  have p2: "p2 = p1\<lparr> InstalledSize := InstalledSize p1 + all_sizes ?fsys \<rparr>"
    using calculateInstalledSize_ok [of p1 ?fsys] c r2 by simp
  let ?w5 = "emit (CreateTemp ''melange-data-*.tar.gz'')
               (emit (LogInfo (''  installed-size: '' @ fmt_int (sint (InstalledSize p2)))) w3)"
  obtain tmp where t: "os_CreateTemp env ''melange-data-*.tar.gz'' = Inr tmp"
    using assms m g r1 c r2
    by (cases "os_CreateTemp env ''melange-data-*.tar.gz''") (auto simp add: EmitPackage_def Let_def)
  obtain r3 p3 w6 where e: "EmitPackage_dataTarGz env p2 ?fsys ?u tmp ?w5 = (r3, p3, w6)"
    by (cases "EmitPackage_dataTarGz env p2 ?fsys ?u tmp ?w5") auto
  have fin: "EmitPackage env pc w = (r3, p3, emit (Close tmp) (emit (Remove tmp) w6))"
    using m g r1 c r2 t e by (simp add: EmitPackage_def Let_def)
  with assms have r3: "r3 = None" by simp
  have b: "Build p2 = Build pc" "wantSignature p2 = wantSignature pc" "Signer p2 = Signer pc"
    "Filename p2 = Filename pc"
    "dataTarctx p2 (remapUIDs p2) (remapGIDs p2) = dataTarctx pc (remapUIDs pc) (remapGIDs pc)"
    using p1 p2 by simp_all
  note k = EmitPackage_dataTarGz_ok [OF e [unfolded r3], unfolded b, folded dataTar_def,
      folded dataSection_def]
  from k have h: "DataHash p3 = hex_EncodeToString (sha256_Sum env (dataSection env pc))"
    by simp
  have fl: "files (emit (Close tmp) (emit (Remove tmp) w6)) = files w6"
    by (simp add: emit_def)
  show ?thesis
    unfolding fin fst_conv snd_conv fl using h k by blast
qed

subsection \<open>The control section\<close>

lemma controlFS_eq:
  "controlFS pc buf = Inr ((''.PKGINFO'', buf, 420) # scriptletFiles pc)"
  by (simp add: controlFS_def and_then_def wrapf_def writeScriptlet_def memfs_WriteFile_def
        scriptletFiles_def scriptlets_def)

lemma scriptletFiles_names:
  "(name \<in> fst ` set (scriptletFiles pc)) \<longleftrightarrow>
     (\<exists>body. (name, body) \<in> set (scriptlets pc) \<and> body \<noteq> [])"
  by (auto simp add: scriptletFiles_def scriptlets_def)

lemma generateControlSection_ok:
  assumes "generateControlSection env pc = Inr ctrl"
  shows "ctrl = gzip_Compress env (fst (tarball_WriteTar env (controlTarctx pc)
                  (MemFS ((''.PKGINFO'', controlText pc, 420) # scriptletFiles pc))
                  (MemFS ((''.PKGINFO'', controlText pc, 420) # scriptletFiles pc))))"
proof -
  let ?fs = "MemFS ((''.PKGINFO'', controlText pc, 420) # scriptletFiles pc)"
  obtain tar terr where t: "tarball_WriteTar env (controlTarctx pc) ?fs ?fs = (tar, terr)"
    by (cases "tarball_WriteTar env (controlTarctx pc) ?fs ?fs") auto
  from assms t show ?thesis
    by (auto simp add: generateControlSection_def and_then_def wrapf_def GenerateControlData_def
          controlFS_eq controlText_def split: option.splits)
qed

lemma last_controlTemplate: "last (controlTemplate pc) = ''datahash = '' @ DataHash pc"
  by (simp add: controlTemplate_def)

lemma builddate_line:
  "(\<exists>l \<in> set (controlTemplate pc). prefix ''builddate = '' l) \<longleftrightarrow> SourceDateEpoch (Build pc) \<noteq> 0"
  by (auto simp add: controlTemplate_def)

lemma triggers_line:
  "(\<exists>l \<in> set (controlTemplate pc). prefix ''triggers = '' l) \<longleftrightarrow> Paths (Trigger (Scriptlets pc)) \<noteq> []"
  by (auto simp add: controlTemplate_def)

lemma provider_priority_line:
  "(\<exists>l \<in> set (controlTemplate pc). prefix ''provider_priority = '' l) \<longleftrightarrow> ProviderPriority (Dependencies pc) \<noteq> 0"
  by (auto simp add: controlTemplate_def)

lemma controlText_suffix:
  "suffix (''datahash = '' @ DataHash pc @ [newline]) (controlText pc)"
  by (simp add: controlText_def controlTemplate_def suffix_def)

subsection \<open>The example environment\<close>

lemma env0_GenerateDependencies: "fst (GenerateDependencies env0 pc w) = None"
  by (simp add: GenerateDependencies_result env0_def)

lemma env0_calculateInstalledSize: "fst (calculateInstalledSize pc tree0) = None"
  by (simp add: calculateInstalledSize_def fs_WalkDir_def tree0_def installedSizeFn_def)

lemma env0_write_blocks: "fst (write_blocks env0 ps mw) = None"
  by (induction ps arbitrary: mw)
     (simp_all add: MultiWriter_Write_def wfile_Write_def env0_def split: prod.splits)

lemma env0_emitDataSection:
  "fst (emitDataSection env0 pc fsys userinfofs ru rg f w) = None"
proof -
  have a: "\<And>ps mw. \<exists>dg f1. write_blocks env0 ps mw = (None, (dg, f1))"
  proof -
    fix ps mw
    show "\<exists>dg f1. write_blocks env0 ps mw = (None, (dg, f1))"
      using env0_write_blocks [of ps mw] by (cases "write_blocks env0 ps mw") auto
  qed
  let ?n = "pgzipThreads env0"
  obtain tar terr where t: "tarball_WriteTar env0 (dataTarctx pc ru rg) fsys userinfofs = (tar, terr)"
    by (cases "tarball_WriteTar env0 (dataTarctx pc ru rg) fsys userinfofs") auto
  then have te: "terr = None" by (auto simp add: env0_def)
  obtain dg1 f1 where b1: "write_blocks env0 (pgzip_Write env0 (2 ^ 20) ?n tar) ([], f) = (None, (dg1, f1))"
    using a by blast
  obtain dg2 f2 where b2: "write_blocks env0 (pgzip_Close env0 (2 ^ 20) ?n tar) (dg1, f1) = (None, (dg2, f2))"
    using a by blast
  have c: "tarball_NewContext env0 (dataTarctx pc ru rg) = None"
    "pgzip_SetConcurrency env0 (2 ^ 20) ?n = None" "file_Seek env0 (f_name f2) = None"
    by (simp_all add: env0_def)
  show ?thesis
    unfolding emitDataSection_def Let_def c option.case t prod.case b1 b2 te by simp
qed

lemma env0_generateControlSection: "\<exists>ctrl. generateControlSection env0 pc = Inr ctrl"
proof -
  let ?fs = "MemFS ((''.PKGINFO'', controlText pc, 420) # scriptletFiles pc)"
  obtain tar terr where t: "tarball_WriteTar env0 (controlTarctx pc) ?fs ?fs = (tar, terr)"
    by (cases "tarball_WriteTar env0 (controlTarctx pc) ?fs ?fs") auto
  then have te: "terr = None" by (auto simp add: env0_def)
  have c: "tarball_NewContext env0 (controlTarctx pc) = None" "gzip_Close env0 tar = None"
    by (simp_all add: env0_def)
  show ?thesis
    using t te c
    by (simp add: generateControlSection_def and_then_def wrapf_def GenerateControlData_def
          controlFS_eq controlText_def)
qed

lemma env0_combine: "fst (combine env0 out ps w) = None"
  by (induction ps arbitrary: w) (simp_all add: env0_def)

lemma env0_EmitPackage_outFile: "fst (EmitPackage_outFile env0 pc ps w) = None"
proof -
  obtain w1 where c: "combine env0 (Filename pc) ps w = (None, w1)"
    using env0_combine [of "Filename pc" ps w] by (cases "combine env0 (Filename pc) ps w") auto
  show ?thesis
    unfolding EmitPackage_outFile_def c prod.case option.case Let_def
    by (simp split: prod.splits option.splits)
qed

lemma env0_EmitPackage_dataTarGz:
  "fst (EmitPackage_dataTarGz env0 pc fsys userinfofs tmp w) = None"
proof -
  let ?f = "\<lparr> f_name = tmp, f_content = [], f_pos = 0 \<rparr>"
  obtain p1 f1 w1 where e: "emitDataSection env0 pc (DiskFS fsys) (DiskFS userinfofs)
        (remapUIDs pc) (remapGIDs pc) ?f w = (None, p1, f1, w1)"
    using env0_emitDataSection [of pc "DiskFS fsys" "DiskFS userinfofs" "remapUIDs pc" "remapGIDs pc" ?f w]
    by (cases "emitDataSection env0 pc (DiskFS fsys) (DiskFS userinfofs) (remapUIDs pc) (remapGIDs pc) ?f w") auto
  obtain ctrl where g: "generateControlSection env0 p1 = Inr ctrl"
    using env0_generateControlSection by blast
  let ?parts = "[ctrl, drop (f_pos f1) (f_content f1)]"
  let ?sel = "(if wantSignature p1
               then (case EmitSignature env0 (Signer p1) ctrl (SourceDateEpoch (Build p1)) of
                       Inl err \<Rightarrow> Inl (Wrapf ''emitting signature'' err)
                     | Inr signatureData \<Rightarrow> Inr ([signatureData] @ ?parts))
               else Inr ?parts)"
  obtain parts where s: "?sel = Inr parts"
    by (cases ?sel) (auto simp add: env0_def split: if_splits)
  have c: "os_MkdirAll env0 (OutDir p1) = None" "os_Create env0 (Filename p1) = None"
    by (simp_all add: env0_def)
  let ?w3 = "emit (Create (Filename p1)) (emit (MkdirAll (OutDir p1) 493) w1)"
  let ?w4 = "?w3\<lparr> files := (files ?w3)(Filename p1 \<mapsto> []) \<rparr>"
  obtain w5 where o: "EmitPackage_outFile env0 p1 parts ?w4 = (None, w5)"
    using env0_EmitPackage_outFile [of p1 parts ?w4]
    by (cases "EmitPackage_outFile env0 p1 parts ?w4") auto
  show ?thesis
    unfolding EmitPackage_dataTarGz_def e prod.case option.case g sum.case Let_def s c o
    by simp
qed

lemma env0_EmitPackage: "fst (EmitPackage env0 pc w) = None"
proof -
  let ?ws = "WorkspaceSubdir env0 pc"
  let ?w2 = "emit (LogInfo (''generating package '' @ Identity pc)) (emit (MkdirAll ?ws 493) w)"
  have m: "os_MkdirAll env0 ?ws = None" by (simp add: env0_def)
  obtain p1 w3 where g: "GenerateDependencies env0 pc ?w2 = (None, p1, w3)"
    using env0_GenerateDependencies [of pc ?w2]
    by (cases "GenerateDependencies env0 pc ?w2") auto
  have fs: "readlinkFS env0 ?ws = tree0" by (simp add: env0_def)
  obtain p2 where c: "calculateInstalledSize p1 tree0 = (None, p2)"
    using env0_calculateInstalledSize [of p1]
    by (cases "calculateInstalledSize p1 tree0") auto
  have t: "os_CreateTemp env0 ''melange-data-*.tar.gz'' = Inr ''/tmp/melange-data-1.tar.gz''"
    by (simp add: env0_def)
  let ?w5 = "emit (CreateTemp ''melange-data-*.tar.gz'')
               (emit (LogInfo (''  installed-size: '' @ fmt_int (sint (InstalledSize p2)))) w3)"
  obtain p3 w6 where e: "EmitPackage_dataTarGz env0 p2 tree0 (os_DirFS env0 (GuestDir (Build pc)))
        ''/tmp/melange-data-1.tar.gz'' ?w5 = (None, p3, w6)"
    using env0_EmitPackage_dataTarGz [of p2 tree0 "os_DirFS env0 (GuestDir (Build pc))" "''/tmp/melange-data-1.tar.gz''" ?w5]
    by (cases "EmitPackage_dataTarGz env0 p2 tree0 (os_DirFS env0 (GuestDir (Build pc)))
        ''/tmp/melange-data-1.tar.gz'' ?w5") auto
  show ?thesis
    unfolding EmitPackage_def Let_def m option.case g prod.case fs c t sum.case e by simp
qed

subsection \<open>The assembled package\<close>

lemma scriptlet_file_iff:
  "(''.trigger'' \<in> fst ` set (scriptletFiles pc)) = (Script (Trigger (Scriptlets pc)) \<noteq> [])"
  "(''.pre-install'' \<in> fst ` set (scriptletFiles pc)) = (PreInstall (Scriptlets pc) \<noteq> [])"
  "(''.post-install'' \<in> fst ` set (scriptletFiles pc)) = (PostInstall (Scriptlets pc) \<noteq> [])"
  "(''.pre-deinstall'' \<in> fst ` set (scriptletFiles pc)) = (PreDeinstall (Scriptlets pc) \<noteq> [])"
  "(''.post-deinstall'' \<in> fst ` set (scriptletFiles pc)) = (PostDeinstall (Scriptlets pc) \<noteq> [])"
  "(''.pre-upgrade'' \<in> fst ` set (scriptletFiles pc)) = (PreUpgrade (Scriptlets pc) \<noteq> [])"
  "(''.post-upgrade'' \<in> fst ` set (scriptletFiles pc)) = (PostUpgrade (Scriptlets pc) \<noteq> [])"
  by (simp_all add: scriptletFiles_names scriptlets_def)

lemma scriptletFiles_subset:
  "set (scriptletFiles pc) \<subseteq> (\<lambda>(name, body). (name, body, 493)) ` set (scriptlets pc)"
  by (auto simp add: scriptletFiles_def split: if_splits)

text \<open>
  Claim C8.  Of the lines the control template emits, one starts with \<open>builddate = \<close>
  exactly when the fixed timestamp is not zero, one starts with \<open>triggers = \<close> exactly when
  there are trigger paths, one starts with \<open>provider_priority = \<close> exactly when the value
  is set (not zero), and the last line is \<open>datahash = \<close> followed by the data hash, which
  also ends the rendered text.  The file system of the control section holds \<open>.PKGINFO\<close>
  with the rendered text and, for each of the seven scriptlets, a file of that name
  exactly when its body is not empty, with the body as contents and mode \<open>0755\<close>; a
  control section that is returned is the compressed archive of that file system.
\<close>

theorem C8_control_section_omissions:
  "((\<exists>l \<in> set (controlTemplate pc). prefix ''builddate = '' l) = (SourceDateEpoch (Build pc) \<noteq> 0))
   \<and> ((\<exists>l \<in> set (controlTemplate pc). prefix ''triggers = '' l) = (Paths (Trigger (Scriptlets pc)) \<noteq> []))
   \<and> ((\<exists>l \<in> set (controlTemplate pc). prefix ''provider_priority = '' l)
         = (ProviderPriority (Dependencies pc) \<noteq> 0))
   \<and> last (controlTemplate pc) = ''datahash = '' @ DataHash pc
   \<and> GenerateControlData pc = Inr (controlText pc)
   \<and> suffix (''datahash = '' @ DataHash pc @ [newline]) (controlText pc)
   \<and> controlFS pc (controlText pc) = Inr ((''.PKGINFO'', controlText pc, 420) # scriptletFiles pc)
   \<and> set (scriptletFiles pc) \<subseteq> (\<lambda>(name, body). (name, body, 493)) ` set (scriptlets pc)
   \<and> ((''.trigger'' \<in> fst ` set (scriptletFiles pc)) = (Script (Trigger (Scriptlets pc)) \<noteq> []))
   \<and> ((''.pre-install'' \<in> fst ` set (scriptletFiles pc)) = (PreInstall (Scriptlets pc) \<noteq> []))
   \<and> ((''.post-install'' \<in> fst ` set (scriptletFiles pc)) = (PostInstall (Scriptlets pc) \<noteq> []))
   \<and> ((''.pre-deinstall'' \<in> fst ` set (scriptletFiles pc)) = (PreDeinstall (Scriptlets pc) \<noteq> []))
   \<and> ((''.post-deinstall'' \<in> fst ` set (scriptletFiles pc)) = (PostDeinstall (Scriptlets pc) \<noteq> []))
   \<and> ((''.pre-upgrade'' \<in> fst ` set (scriptletFiles pc)) = (PreUpgrade (Scriptlets pc) \<noteq> []))
   \<and> ((''.post-upgrade'' \<in> fst ` set (scriptletFiles pc)) = (PostUpgrade (Scriptlets pc) \<noteq> []))
   \<and> (\<forall>ctrl. generateControlSection env pc = Inr ctrl \<longrightarrow>
         ctrl = gzip_Compress env (fst (tarball_WriteTar env (controlTarctx pc)
                  (MemFS ((''.PKGINFO'', controlText pc, 420) # scriptletFiles pc))
                  (MemFS ((''.PKGINFO'', controlText pc, 420) # scriptletFiles pc)))))"
  using builddate_line [of pc] triggers_line [of pc] provider_priority_line [of pc]
    last_controlTemplate [of pc] controlText_suffix [of pc] controlFS_eq [of pc "controlText pc"]
    scriptletFiles_subset [of pc] scriptlet_file_iff [of pc] generateControlSection_ok [of env pc]
  by (simp add: GenerateControlData_def controlText_def)

theorem C8_witness:
  "generateControlSection env0 pc0 =
     Inr (gzip_Compress env0 (fst (tarball_WriteTar env0 (controlTarctx pc0)
            (MemFS ((''.PKGINFO'', controlText pc0, 420) # scriptletFiles pc0))
            (MemFS ((''.PKGINFO'', controlText pc0, 420) # scriptletFiles pc0)))))
   \<and> scriptletFiles pc0 = [(''.post-install'', ''echo'', 493)]
   \<and> (\<exists>l \<in> set (controlTemplate pc0). prefix ''builddate = '' l)
   \<and> \<not> (\<exists>l \<in> set (controlTemplate pc0). prefix ''triggers = '' l)"
proof -
  obtain ctrl where g: "generateControlSection env0 pc0 = Inr ctrl"
    using env0_generateControlSection by blast
  have s: "scriptletFiles pc0 = [(''.post-install'', ''echo'', 493)]"
    by (simp add: scriptletFiles_def scriptlets_def pc0_def)
  have b: "SourceDateEpoch (Build pc0) \<noteq> 0" "Paths (Trigger (Scriptlets pc0)) = []"
    by (simp_all add: pc0_def build0_def)
  show ?thesis
    using C8_control_section_omissions [of pc0 env0] g s b by simp
qed

lemma emitDataSection_ok_proj:
  assumes "fst (emitDataSection env pc fsys userinfofs ru rg f w) = None"
  shows "DataHash (fst (snd (emitDataSection env pc fsys userinfofs ru rg f w))) =
           hex_EncodeToString (sha256_Sum env
             (concat (dataBlocks env (fst (tarball_WriteTar env (dataTarctx pc ru rg) fsys userinfofs)))))
       \<and> (f_pos f = length (f_content f) \<longrightarrow>
            f_content (fst (snd (snd (emitDataSection env pc fsys userinfofs ru rg f w)))) =
              f_content f
              @ concat (dataBlocks env (fst (tarball_WriteTar env (dataTarctx pc ru rg) fsys userinfofs))))"
proof -
  obtain r p1 f1 w1 where e: "emitDataSection env pc fsys userinfofs ru rg f w = (r, p1, f1, w1)"
    by (cases "emitDataSection env pc fsys userinfofs ru rg f w") auto
  with assms have r: "r = None" by simp
  from emitDataSection_ok [OF e [unfolded r]] show ?thesis unfolding e r by simp
qed

text \<open>
  Claim C2.  When \<open>emitDataSection\<close> returns successfully, \<open>DataHash\<close> is the hex encoding
  of the SHA-256 digest of the compressed blocks handed to the writer, and these blocks, in
  order, are what the call has written into the file (from a position at its end, as in
  the fresh temporary file).  When \<open>EmitPackage\<close> succeeds, the artifact ends with those
  data-section bytes, preceded by the control section, which is the compressed archive of a
  file system whose \<open>.PKGINFO\<close> ends with the line \<open>datahash = \<close> followed by the hex
  digest of exactly those bytes: the hash is computed before the control section is
  rendered.
\<close>

theorem C2_datahash_binds_data_section:
  "(fst (emitDataSection env pc fsys userinfofs ru rg f w) = None \<longrightarrow>
      DataHash (fst (snd (emitDataSection env pc fsys userinfofs ru rg f w))) =
        hex_EncodeToString (sha256_Sum env
          (concat (dataBlocks env (fst (tarball_WriteTar env (dataTarctx pc ru rg) fsys userinfofs)))))
      \<and> (f_pos f = length (f_content f) \<longrightarrow>
           f_content (fst (snd (snd (emitDataSection env pc fsys userinfofs ru rg f w)))) =
             f_content f
             @ concat (dataBlocks env (fst (tarball_WriteTar env (dataTarctx pc ru rg) fsys userinfofs)))))
   \<and> (fst (EmitPackage env pc w) = None \<longrightarrow>
        (\<exists>sig ctrl.
           files (snd (snd (EmitPackage env pc w))) (Filename pc)
             = Some (sig @ ctrl @ dataSection env pc)
           \<and> DataHash (fst (snd (EmitPackage env pc w)))
               = hex_EncodeToString (sha256_Sum env (dataSection env pc))
           \<and> ctrl = gzip_Compress env (fst (tarball_WriteTar env
                      (controlTarctx (fst (snd (EmitPackage env pc w))))
                      (MemFS ((''.PKGINFO'', controlText (fst (snd (EmitPackage env pc w))), 420)
                              # scriptletFiles (fst (snd (EmitPackage env pc w)))))
                      (MemFS ((''.PKGINFO'', controlText (fst (snd (EmitPackage env pc w))), 420)
                              # scriptletFiles (fst (snd (EmitPackage env pc w)))))))
           \<and> suffix (''datahash = '' @ hex_EncodeToString (sha256_Sum env (dataSection env pc))
                      @ [newline])
                 (controlText (fst (snd (EmitPackage env pc w))))))"
proof -
  let ?pc1 = "fst (snd (EmitPackage env pc w))"
  have second: "\<exists>sig ctrl.
           files (snd (snd (EmitPackage env pc w))) (Filename pc)
             = Some (sig @ ctrl @ dataSection env pc)
           \<and> DataHash ?pc1 = hex_EncodeToString (sha256_Sum env (dataSection env pc))
           \<and> ctrl = gzip_Compress env (fst (tarball_WriteTar env (controlTarctx ?pc1)
                      (MemFS ((''.PKGINFO'', controlText ?pc1, 420) # scriptletFiles ?pc1))
                      (MemFS ((''.PKGINFO'', controlText ?pc1, 420) # scriptletFiles ?pc1))))
           \<and> suffix (''datahash = '' @ hex_EncodeToString (sha256_Sum env (dataSection env pc))
                      @ [newline]) (controlText ?pc1)"
    if ok: "fst (EmitPackage env pc w) = None"
  proof -
    note k = EmitPackage_ok [OF ok]
    from k have h: "DataHash ?pc1 = hex_EncodeToString (sha256_Sum env (dataSection env pc))"
      by blast
    from k obtain ctrl where g: "generateControlSection env ?pc1 = Inr ctrl"
      and a: "if wantSignature pc
              then \<exists>sig. EmitSignature env (Signer pc) ctrl (SourceDateEpoch (Build pc)) = Inr sig
                     \<and> files (snd (snd (EmitPackage env pc w))) (Filename pc)
                         = Some (sig @ ctrl @ dataSection env pc)
              else files (snd (snd (EmitPackage env pc w))) (Filename pc)
                         = Some (ctrl @ dataSection env pc)"
      by blast
    from a obtain sig where f: "files (snd (snd (EmitPackage env pc w))) (Filename pc)
                         = Some (sig @ ctrl @ dataSection env pc)"
      by (cases "wantSignature pc") (auto intro: that [of "[]"])
    have c: "ctrl = gzip_Compress env (fst (tarball_WriteTar env (controlTarctx ?pc1)
                      (MemFS ((''.PKGINFO'', controlText ?pc1, 420) # scriptletFiles ?pc1))
                      (MemFS ((''.PKGINFO'', controlText ?pc1, 420) # scriptletFiles ?pc1))))"
      using g by (rule generateControlSection_ok)
    have s: "suffix (''datahash = '' @ hex_EncodeToString (sha256_Sum env (dataSection env pc))
                      @ [newline]) (controlText ?pc1)"
      using controlText_suffix [of ?pc1] h by simp
    from f h c s show ?thesis by blast
  qed
  show ?thesis
    using emitDataSection_ok_proj [of env pc fsys userinfofs ru rg f w] second by blast
qed

theorem C2_witness:
  "fst (emitDataSection env0 pc0 (DiskFS tree0) (DiskFS tree0) (remapUIDs pc0) (remapGIDs pc0)
          \<lparr> f_name = ''t'', f_content = [], f_pos = 0 \<rparr> w0) = None
   \<and> f_pos \<lparr> f_name = ''t'', f_content = [], f_pos = 0 \<rparr>
        = length (f_content \<lparr> f_name = ''t'', f_content = [], f_pos = 0 \<rparr>)
   \<and> f_content (fst (snd (snd (emitDataSection env0 pc0 (DiskFS tree0) (DiskFS tree0)
          (remapUIDs pc0) (remapGIDs pc0) \<lparr> f_name = ''t'', f_content = [], f_pos = 0 \<rparr> w0))))
        = ''tarz''
   \<and> DataHash (fst (snd (emitDataSection env0 pc0 (DiskFS tree0) (DiskFS tree0)
          (remapUIDs pc0) (remapGIDs pc0) \<lparr> f_name = ''t'', f_content = [], f_pos = 0 \<rparr> w0)))
        = ''7461''
   \<and> fst (EmitPackage env0 pc0 w0) = None
   \<and> DataHash (fst (snd (EmitPackage env0 pc0 w0))) = ''7461''
   \<and> dataSection env0 pc0 = ''tarz''"
proof -
  let ?f = "\<lparr> f_name = ''t'', f_content = [], f_pos = 0 \<rparr>"
  have a: "fst (emitDataSection env0 pc0 (DiskFS tree0) (DiskFS tree0) (remapUIDs pc0) (remapGIDs pc0) ?f w0) = None"
    by (rule env0_emitDataSection)
  have b: "fst (EmitPackage env0 pc0 w0) = None" by (rule env0_EmitPackage)
  have d: "dataSection env0 pc0 = ''tarz''"
    by (simp add: dataSection_def dataBlocks_def dataTar_def env0_def)
  have d2: "concat (dataBlocks env0 (fst (tarball_WriteTar env0
              (dataTarctx pc0 (remapUIDs pc0) (remapGIDs pc0)) (DiskFS tree0) (DiskFS tree0)))) = ''tarz''"
    by (simp add: dataBlocks_def env0_def)
  have h: "hex_EncodeToString (sha256_Sum env0 ''tarz'') = ''7461''"
    by (simp add: hex_EncodeToString_def hextable_def env0_def)
  show ?thesis
    using C2_datahash_binds_data_section [of env0 pc0 "DiskFS tree0" "DiskFS tree0" "remapUIDs pc0"
        "remapGIDs pc0" ?f w0] a b
    unfolding d d2 h by auto
qed

text \<open>
  Claim C6.  When \<open>EmitPackage\<close> succeeds, the file at \<open>Filename\<close> holds, in this order,
  the signature section (only when a signing key is configured), the control section and
  the data section.  Without a signing key it is exactly the control section followed by
  the data section; with a key the first section is what \<open>EmitSignature\<close> returns for the
  signer built from the key, the exact bytes of the control section and the fixed
  timestamp.
\<close>

theorem C6_artifact_sections_in_order:
  assumes "fst (EmitPackage env pc w) = None"
  shows "wantSignature pc = (SigningKey (Build pc) \<noteq> [])
       \<and> KeyFile (Signer pc) = SigningKey (Build pc)
       \<and> (\<exists>ctrl. generateControlSection env (fst (snd (EmitPackage env pc w))) = Inr ctrl
            \<and> (if SigningKey (Build pc) \<noteq> []
                then \<exists>sig. EmitSignature env (Signer pc) ctrl (SourceDateEpoch (Build pc)) = Inr sig
                       \<and> files (snd (snd (EmitPackage env pc w))) (Filename pc)
                           = Some (sig @ ctrl @ dataSection env pc)
                else files (snd (snd (EmitPackage env pc w))) (Filename pc)
                           = Some (ctrl @ dataSection env pc)))"
  using EmitPackage_ok [OF assms] by (simp add: wantSignature_def Signer_def)

theorem C6_witness:
  "fst (EmitPackage env0 pc0 w0) = None \<and> SigningKey (Build pc0) \<noteq> []
   \<and> (\<exists>ctrl sig. generateControlSection env0 (fst (snd (EmitPackage env0 pc0 w0))) = Inr ctrl
         \<and> EmitSignature env0 (Signer pc0) ctrl (SourceDateEpoch (Build pc0)) = Inr sig
         \<and> files (snd (snd (EmitPackage env0 pc0 w0))) (Filename pc0)
              = Some (sig @ ctrl @ dataSection env0 pc0))
   \<and> fst (EmitPackage env0 pc_unsigned w0) = None \<and> SigningKey (Build pc_unsigned) = []
   \<and> (\<exists>ctrl. generateControlSection env0 (fst (snd (EmitPackage env0 pc_unsigned w0))) = Inr ctrl
         \<and> files (snd (snd (EmitPackage env0 pc_unsigned w0))) (Filename pc_unsigned)
              = Some (ctrl @ dataSection env0 pc_unsigned))"
proof -
  have k: "SigningKey (Build pc0) \<noteq> []" "SigningKey (Build pc_unsigned) = []"
    by (simp_all add: pc_unsigned_def pc0_def build0_def)
  show ?thesis
    using C6_artifact_sections_in_order [OF env0_EmitPackage, of pc0 w0]
      C6_artifact_sections_in_order [OF env0_EmitPackage, of pc_unsigned w0]
      env0_EmitPackage [of pc0 w0] env0_EmitPackage [of pc_unsigned w0] k
    by auto
qed

text \<open>
  Claim C7.  The remap table for user ids has one entry: it sends the uid of the account
  named \<open>build\<close> (the last one in the list, should there be several) to 0, and is the
  table \<open>0 \<mapsto> 0\<close> when no account has that name; likewise for group ids and the group
  named \<open>build\<close>.  Under the context of the data section an entry owned by the build uid
  or gid is written with 0 and any other id is written unchanged.  The context of the
  control section has empty remap tables.  When \<open>EmitPackage\<close> succeeds, the data section
  of the artifact is the compressed tar stream written under the context with these two
  tables.
\<close>

theorem C7_ownership_remap:
  "remapUIDs pc =
     (if filter (\<lambda>u. UserName u = ''build'') (Users (Build pc)) = [] then [0 \<mapsto> 0]
      else [int (UID (last (filter (\<lambda>u. UserName u = ''build'') (Users (Build pc))))) \<mapsto> 0])
   \<and> remapGIDs pc =
     (if filter (\<lambda>g. GroupName g = ''build'') (Groups (Build pc)) = [] then [0 \<mapsto> 0]
      else [int (GID (last (filter (\<lambda>g. GroupName g = ''build'') (Groups (Build pc))))) \<mapsto> 0])
   \<and> tarball_uid (dataTarctx pc (remapUIDs pc) (remapGIDs pc)) uid =
        (if uid = int (UID (buildUser (Users (Build pc)))) then 0 else uid)
   \<and> tarball_gid (dataTarctx pc (remapUIDs pc) (remapGIDs pc)) gid =
        (if gid = int (GID (buildGroup (Groups (Build pc)))) then 0 else gid)
   \<and> WithRemapUIDs (controlTarctx pc) = Map.empty
   \<and> WithRemapGIDs (controlTarctx pc) = Map.empty
   \<and> (fst (EmitPackage env pc w) = None \<longrightarrow>
        (\<exists>sig ctrl. files (snd (snd (EmitPackage env pc w))) (Filename pc) =
           Some (sig @ ctrl @ concat (dataBlocks env (fst (tarball_WriteTar env
                   (dataTarctx pc (remapUIDs pc) (remapGIDs pc))
                   (DiskFS (readlinkFS env (WorkspaceSubdir env pc)))
                   (DiskFS (os_DirFS env (GuestDir (Build pc))))))))))"
proof -
  have last: "\<exists>sig ctrl. files (snd (snd (EmitPackage env pc w))) (Filename pc) =
           Some (sig @ ctrl @ concat (dataBlocks env (fst (tarball_WriteTar env
                   (dataTarctx pc (remapUIDs pc) (remapGIDs pc))
                   (DiskFS (readlinkFS env (WorkspaceSubdir env pc)))
                   (DiskFS (os_DirFS env (GuestDir (Build pc))))))))"
    if ok: "fst (EmitPackage env pc w) = None"
  proof -
    from EmitPackage_ok [OF ok] obtain ctrl where
      a: "if wantSignature pc
              then \<exists>sig. EmitSignature env (Signer pc) ctrl (SourceDateEpoch (Build pc)) = Inr sig
                     \<and> files (snd (snd (EmitPackage env pc w))) (Filename pc)
                         = Some (sig @ ctrl @ dataSection env pc)
              else files (snd (snd (EmitPackage env pc w))) (Filename pc)
                         = Some (ctrl @ dataSection env pc)"
      by blast
    from a obtain sig where "files (snd (snd (EmitPackage env pc w))) (Filename pc)
                         = Some (sig @ ctrl @ dataSection env pc)"
      by (cases "wantSignature pc") (auto intro: that [of "[]"])
    then show ?thesis unfolding dataSection_def dataTar_def by blast
  qed
  show ?thesis
    using remapUIDs_eq [of pc] remapGIDs_eq [of pc] data_owner [of pc] control_no_remap [of pc] last
    by simp
qed

theorem C7_witness:
  "remapUIDs pc0 = [1000 \<mapsto> 0] \<and> remapGIDs pc0 = [1000 \<mapsto> 0]
   \<and> remapUIDs pc_noaccounts = [0 \<mapsto> 0] \<and> remapGIDs pc_noaccounts = [0 \<mapsto> 0]
   \<and> tarball_uid (dataTarctx pc0 (remapUIDs pc0) (remapGIDs pc0)) 1000 = 0
   \<and> tarball_uid (dataTarctx pc0 (remapUIDs pc0) (remapGIDs pc0)) 33 = 33
   \<and> tarball_gid (dataTarctx pc0 (remapUIDs pc0) (remapGIDs pc0)) 1000 = 0
   \<and> tarball_gid (dataTarctx pc0 (remapUIDs pc0) (remapGIDs pc0)) 33 = 33
   \<and> fst (EmitPackage env0 pc0 w0) = None
   \<and> (\<exists>sig ctrl. files (snd (snd (EmitPackage env0 pc0 w0))) (Filename pc0) =
           Some (sig @ ctrl @ concat (dataBlocks env0 (fst (tarball_WriteTar env0
                   (dataTarctx pc0 (remapUIDs pc0) (remapGIDs pc0))
                   (DiskFS (readlinkFS env0 (WorkspaceSubdir env0 pc0)))
                   (DiskFS (os_DirFS env0 (GuestDir (Build pc0)))))))))"
proof -
  have u: "Users (Build pc0) = [\<lparr> UserName = ''build'', UID = 1000 \<rparr>]"
    "Groups (Build pc0) = [\<lparr> GroupName = ''build'', GID = 1000 \<rparr>]"
    "Users (Build pc_noaccounts) = [\<lparr> UserName = ''root'', UID = 0 \<rparr>,
       \<lparr> UserName = ''nobody'', UID = 65534 \<rparr>]"
    "Groups (Build pc_noaccounts) = []"
    by (simp_all add: pc_noaccounts_def pc0_def build0_def)
  note t1 = C7_ownership_remap [of pc0 1000 1000 env0 w0]
  note t2 = C7_ownership_remap [of pc0 33 33 env0 w0]
  note t3 = C7_ownership_remap [of pc_noaccounts 0 0 env0 w0]
  have r1: "remapUIDs pc0 = [1000 \<mapsto> 0]" "remapGIDs pc0 = [1000 \<mapsto> 0]"
    using t1 unfolding u by simp_all
  have r3: "remapUIDs pc_noaccounts = [0 \<mapsto> 0]" "remapGIDs pc_noaccounts = [0 \<mapsto> 0]"
    using t3 unfolding u by simp_all
  have o1: "tarball_uid (dataTarctx pc0 (remapUIDs pc0) (remapGIDs pc0)) 1000 = 0"
    "tarball_gid (dataTarctx pc0 (remapUIDs pc0) (remapGIDs pc0)) 1000 = 0"
    using t1 [THEN conjunct2, THEN conjunct2, THEN conjunct1]
      t1 [THEN conjunct2, THEN conjunct2, THEN conjunct2, THEN conjunct1]
    unfolding u by (simp_all add: buildUser_def buildGroup_def)
  have o2: "tarball_uid (dataTarctx pc0 (remapUIDs pc0) (remapGIDs pc0)) 33 = 33"
    "tarball_gid (dataTarctx pc0 (remapUIDs pc0) (remapGIDs pc0)) 33 = 33"
    using t2 [THEN conjunct2, THEN conjunct2, THEN conjunct1]
      t2 [THEN conjunct2, THEN conjunct2, THEN conjunct2, THEN conjunct1]
    unfolding u by (simp_all add: buildUser_def buildGroup_def)
  have e: "fst (EmitPackage env0 pc0 w0) = None" by (rule env0_EmitPackage)
  have f: "\<exists>sig ctrl. files (snd (snd (EmitPackage env0 pc0 w0))) (Filename pc0) =
           Some (sig @ ctrl @ concat (dataBlocks env0 (fst (tarball_WriteTar env0
                   (dataTarctx pc0 (remapUIDs pc0) (remapGIDs pc0))
                   (DiskFS (readlinkFS env0 (WorkspaceSubdir env0 pc0)))
                   (DiskFS (os_DirFS env0 (GuestDir (Build pc0))))))))"
    using t1 e by blast
  show ?thesis
    using r1 r3 o1 o2 e f by (intro conjI)
qed

end
